theory Spec2Isabelle
  imports Complex_Main
begin

section \<open>JavaScript values used by the widget\<close>

text \<open>
  A JavaScript Number is modelled as a real number or \<open>NaN\<close>; arithmetic is exact (the
  rounding of doubles and the two infinities are not represented). The remainder operator
  \<^verbatim>\<open>%\<close> truncates the quotient towards zero, so its result has the sign of the dividend,
  and it yields \<open>NaN\<close> for a zero divisor.
\<close>

datatype jsnum = Num real | NaN

datatype jsval = Str string | Number jsnum

definition js_trunc :: "real \<Rightarrow> int" where
  "js_trunc x = (if 0 \<le> x then \<lfloor>x\<rfloor> else \<lceil>x\<rceil>)"

fun js_add :: "jsnum \<Rightarrow> jsnum \<Rightarrow> jsnum" where
  "js_add (Num a) (Num b) = Num (a + b)"
| "js_add _ _ = NaN"

fun js_sub :: "jsnum \<Rightarrow> jsnum \<Rightarrow> jsnum" where
  "js_sub (Num a) (Num b) = Num (a - b)"
| "js_sub _ _ = NaN"

fun js_mul :: "jsnum \<Rightarrow> jsnum \<Rightarrow> jsnum" where
  "js_mul (Num a) (Num b) = Num (a * b)"
| "js_mul _ _ = NaN"

fun js_rem :: "jsnum \<Rightarrow> jsnum \<Rightarrow> jsnum" where
  "js_rem (Num a) (Num b) =
     (if b = 0 then NaN else Num (a - b * of_int (js_trunc (a / b))))"
| "js_rem _ _ = NaN"

text \<open>Truthiness of a value that may be \<^verbatim>\<open>undefined\<close> or \<^verbatim>\<open>null\<close> (\<open>None\<close>).\<close>

fun truthy :: "jsval option \<Rightarrow> bool" where
  "truthy None = False"
| "truthy (Some (Str s)) = (s \<noteq> [])"
| "truthy (Some (Number n)) = (n \<noteq> Num 0 \<and> n \<noteq> NaN)"

text \<open>
  Operands of the strict comparisons \<^verbatim>\<open>===\<close> and \<^verbatim>\<open>!==\<close>: an object or a primitive
  value. Values of different types are never strictly equal, and \<open>NaN\<close> is not equal to
  itself.
\<close>

datatype 'o operand = Obj 'o | Prim jsval

fun strict_eq :: "'o operand \<Rightarrow> 'o operand \<Rightarrow> bool" where
  "strict_eq (Prim (Number a)) (Prim (Number b)) = (a \<noteq> NaN \<and> b \<noteq> NaN \<and> a = b)"
| "strict_eq (Prim (Str a)) (Prim (Str b)) = (a = b)"
| "strict_eq (Obj a) (Obj b) = (a = b)"
| "strict_eq _ _ = False"

definition strict_neq :: "'o operand \<Rightarrow> 'o operand \<Rightarrow> bool" where
  "strict_neq a b = (\<not> strict_eq a b)"

text \<open>
  Reading an array at an index: \<^verbatim>\<open>undefined\<close> (\<open>None\<close>) unless the index is a
  non-negative whole number below the length.
\<close>

fun js_index :: "'a list \<Rightarrow> jsnum \<Rightarrow> 'a option" where
  "js_index xs NaN = None"
| "js_index xs (Num x) =
     (if 0 \<le> x \<and> x = of_int \<lfloor>x\<rfloor> \<and> nat \<lfloor>x\<rfloor> < length xs
      then Some (xs ! nat \<lfloor>x\<rfloor>) else None)"

section \<open>The host environment\<close>

type_synonym node = nat

text \<open>
  The exceptions that an access of the cookies can throw: the library's \<^verbatim>\<open>TypeError\<close>
  for a name it refuses, the \<^verbatim>\<open>URIError\<close> of \<^verbatim>\<open>decodeURIComponent\<close> for a cookie text
  that is not well encoded, and the \<^verbatim>\<open>SecurityError\<close> of a document that may not use
  cookies.
\<close>

datatype error = TypeError | URIError | SecurityError

text \<open>
  The options object of a cookie as the library reads it: \<open>expires\<close> when it is a
  \<^verbatim>\<open>Date\<close> (in milliseconds since the epoch), \<open>path\<close> and \<open>domain\<close> when they are
  non-empty strings, \<open>secure\<close> when it is \<^verbatim>\<open>true\<close>.
\<close>

record cookie_options =
  opt_expires :: "nat option"
  opt_path :: "string option"
  opt_domain :: "string option"
  opt_secure :: bool

text \<open>
  One assignment to \<^verbatim>\<open>document.cookie\<close>: the cookie's name, its sub-values (each as
  \<^verbatim>\<open>Number\<close> reads its text) and the options sent with it.
\<close>

record cookie_write =
  cw_name :: string
  cw_hash :: "string \<rightharpoonup> jsnum"
  cw_options :: cookie_options

text \<open>The two completion callbacks of \<^verbatim>\<open>_advance\<close>, each closing over \<^verbatim>\<open>current\<close>.\<close>

datatype handler = FadeUpComplete "node option" | FadeDownComplete "node option"

text \<open>An animation in flight: the element, the opacity it started from, the target.\<close>

record tween =
  tw_el :: "node option"
  tw_from :: "jsval option"
  tw_to :: real
  tw_duration :: real
  tw_onComplete :: handler

text \<open>
  The widget calls three capabilities of the YUI library (styles, cookies, animation)
  and the host's timer; their code is not part of the repository. Each call is recorded,
  in the order the calls are made, also when it throws.
\<close>

datatype event =
    SetStyle "node option" string jsval
  | GetSub string string
  | SetSub string string jsnum cookie_options
  | SetTimeout jsnum
  | Animate "node option" real real

text \<open>
  The host: the child nodes of each container as pairs of a node and its node type (1 for
  an element), the style of each node, the cookies, the reading of the clock
  \<^verbatim>\<open>(new Date()).getTime()\<close> in milliseconds since the epoch, the delays of the pending
  timers, the animations in flight, and the calls made so far.

  The cookies are the assignments made to \<^verbatim>\<open>document.cookie\<close> so far, oldest first,
  together with the answer to a read: \<open>browser\<close> gives, for the assignments made, the
  time and a cookie name, what reading \<^verbatim>\<open>document.cookie\<close> and parsing it yields for
  that name: the sub-values of the cookie of that name that the page is shown, or no
  cookie, or the exception thrown on the way. Which cookies a page is shown (by path,
  domain, expiry, the secure flag) is the browser's matter, so \<open>browser\<close> is a
  parameter of the host.
\<close>

record world =
  childNodes :: "node \<Rightarrow> (node \<times> nat) list"
  styles :: "node \<Rightarrow> string \<rightharpoonup> jsval"
  cookie_writes :: "cookie_write list"
  browser ::
    "cookie_write list \<Rightarrow> nat \<Rightarrow> string \<Rightarrow> error + (string \<rightharpoonup> jsnum) option"
  now :: nat
  timers :: "jsnum list"
  running :: "tween list"
  trace :: "event list"

text \<open>
  The style capability, \<^verbatim>\<open>Dom.getStyle\<close> and \<^verbatim>\<open>Dom.setStyle\<close> of the library, reads and
  writes one style property of one node. The library ignores a write whose element is
  \<^verbatim>\<open>undefined\<close>; the call is still recorded.
\<close>

definition getStyle :: "world \<Rightarrow> node \<Rightarrow> string \<Rightarrow> jsval option" where
  "getStyle w el prop = styles w el prop"

definition setStyle :: "node option \<Rightarrow> string \<Rightarrow> jsval \<Rightarrow> world \<Rightarrow> world" where
  "setStyle el prop v w =
     (case el of
        None \<Rightarrow> w\<lparr>trace := trace w @ [SetStyle el prop v]\<rparr>
      | Some n \<Rightarrow> w\<lparr>styles := (styles w)(n := (styles w n)(prop \<mapsto> v)),
                    trace := trace w @ [SetStyle el prop v]\<rparr>)"

text \<open>
  The persistence capability of the library. \<^verbatim>\<open>Cookie.getSubs(name)\<close> throws a
  \<^verbatim>\<open>TypeError\<close> for an empty name and otherwise reads the cookies: it gives the
  sub-values of the cookie of that name that the page is shown, or \<^verbatim>\<open>null\<close> (\<open>None\<close>),
  or throws what the read throws.
\<close>

definition getSubs :: "string \<Rightarrow> world \<Rightarrow> error + (string \<rightharpoonup> jsnum) option" where
  "getSubs name w =
     (if name = [] then Inl TypeError
      else browser w (cookie_writes w) (now w) name)"

text \<open>
  \<^verbatim>\<open>Cookie.getSub(name, sub, Number)\<close> reads the cookie with \<^verbatim>\<open>getSubs\<close>. Without a
  cookie the result is \<^verbatim>\<open>null\<close>; with one, an empty sub-value name throws, a missing
  sub-value gives \<^verbatim>\<open>null\<close>, and a present one is converted with \<^verbatim>\<open>Number\<close>.
\<close>

definition getSub :: "string \<Rightarrow> string \<Rightarrow> world \<Rightarrow> (error + jsnum option) \<times> world" where
  "getSub name sub w =
     ((case getSubs name w of
         Inl e \<Rightarrow> Inl e
       | Inr None \<Rightarrow> Inr None
       | Inr (Some hash) \<Rightarrow> if sub = [] then Inl TypeError else Inr (hash sub)),
      w\<lparr>trace := trace w @ [GetSub name sub]\<rparr>)"

text \<open>
  \<^verbatim>\<open>Cookie.setSub(name, sub, value, options)\<close> throws a \<^verbatim>\<open>TypeError\<close> for an empty name
  or an empty sub-value name. Otherwise it reads the sub-values of the cookie with
  \<^verbatim>\<open>getSubs\<close> (none if the page is shown no such cookie), sets the one sub-value and
  assigns the whole cookie, with the options, to \<^verbatim>\<open>document.cookie\<close>. The result is the
  exception thrown, if any.
\<close>

definition setSub ::
  "string \<Rightarrow> string \<Rightarrow> jsnum \<Rightarrow> cookie_options \<Rightarrow> world \<Rightarrow> error option \<times> world" where
  "setSub name sub v opts w =
     (let w' = w\<lparr>trace := trace w @ [SetSub name sub v opts]\<rparr>
      in if name = [] \<or> sub = [] then (Some TypeError, w')
         else
           (case getSubs name w of
              Inl e \<Rightarrow> (Some e, w')
            | Inr found \<Rightarrow>
                (let hash = (case found of None \<Rightarrow> Map.empty | Some h \<Rightarrow> h)
                 in (None,
                     w'\<lparr>cookie_writes := cookie_writes w @
                          [\<lparr>cw_name = name, cw_hash = hash(sub \<mapsto> v),
                            cw_options = opts\<rparr>]\<rparr>))))"

text \<open>
  The host's \<^verbatim>\<open>setTimeout(function() { self._advance(); }, t)\<close> leaves one more timer
  pending, which will call \<^verbatim>\<open>_advance\<close>.
\<close>

definition setTimeout :: "jsnum \<Rightarrow> world \<Rightarrow> world" where
  "setTimeout t w = w\<lparr>timers := timers w @ [t], trace := trace w @ [SetTimeout t]\<rparr>"

text \<open>
  The animation capability of the library: \<^verbatim>\<open>anim.animate()\<close>, for an animation built
  by \<^verbatim>\<open>new Anim(el, {opacity: {to: v}}, duration)\<close> with one subscriber of
  \<^verbatim>\<open>onComplete\<close>, starts to interpolate the opacity of the element from its value at that
  moment to \<open>v\<close>.
\<close>

definition animate :: "node option \<Rightarrow> real \<Rightarrow> real \<Rightarrow> handler \<Rightarrow> world \<Rightarrow> world" where
  "animate el to duration h w =
     w\<lparr>running := running w @
          [\<lparr>tw_el = el,
            tw_from = (case el of None \<Rightarrow> None | Some n \<Rightarrow> getStyle w n ''opacity''),
            tw_to = to, tw_duration = duration, tw_onComplete = h\<rparr>],
       trace := trace w @ [Animate el to duration]\<rparr>"

section \<open>The widget\<close>

record rotator =
  element :: node
  show_duration :: real
  fade_duration :: real
  clock_sync :: bool
  cookie_persist :: bool
  cookie_name :: string
  cookie_settings :: cookie_options
  elements :: "node list"
  current :: jsnum

record config =
  cfg_show_duration :: "real option"
  cfg_fade_duration :: "real option"
  cfg_clock_sync :: "bool option"
  cfg_cookie_persist :: "bool option"
  cfg_cookie_name :: "string option"
  cfg_cookie_settings :: "cookie_options option"

text \<open>
  The constructor with \<^verbatim>\<open>initAttributes\<close>: defaults from \<^verbatim>\<open>_CONFIG_DEFAULTS\<close>. The
  validator of the cookie name, \<^verbatim>\<open>Lang.isString\<close>, accepts every string, the empty one
  too.
\<close>

definition ElementRotator :: "node \<Rightarrow> config \<Rightarrow> rotator" where
  "ElementRotator ctr cfg =
     \<lparr>element = ctr,
      show_duration = (case cfg_show_duration cfg of None \<Rightarrow> 5 | Some v \<Rightarrow> v),
      fade_duration = (case cfg_fade_duration cfg of None \<Rightarrow> 1 | Some v \<Rightarrow> v),
      clock_sync = (case cfg_clock_sync cfg of None \<Rightarrow> False | Some v \<Rightarrow> v),
      cookie_persist = (case cfg_cookie_persist cfg of None \<Rightarrow> False | Some v \<Rightarrow> v),
      cookie_name = (case cfg_cookie_name cfg of None \<Rightarrow> ''elementrotator'' | Some v \<Rightarrow> v),
      cookie_settings =
        (case cfg_cookie_settings cfg of
           None \<Rightarrow> \<lparr>opt_expires = None, opt_path = Some ''/'', opt_domain = None,
                     opt_secure = False\<rparr>
         | Some v \<Rightarrow> v),
      elements = [],
      current = Num 0\<rparr>"

text \<open>
  The outcome of a method of the widget: the widget and the host as the method leaves
  them, and the exception that it throws, if any. What the method did before it threw
  stays done.
\<close>

record run =
  widget :: rotator
  host :: world
  thrown :: "error option"

definition initCurrent :: "rotator \<Rightarrow> world \<Rightarrow> run" where
  "initCurrent r w =
     (if cookie_persist r then
        (case getSub (cookie_name r) ''current'' w of
           (Inl e, w') \<Rightarrow> \<lparr>widget = r, host = w', thrown = Some e\<rparr>
         | (Inr cur, w') \<Rightarrow>
             \<lparr>widget =
                (case cur of
                   None \<Rightarrow> r
                 | Some c \<Rightarrow> if truthy (Some (Number c)) then r\<lparr>current := c\<rparr> else r),
              host = w', thrown = None\<rparr>)
      else \<lparr>widget = r, host = w, thrown = None\<rparr>)"

definition advanceCurrent :: "rotator \<Rightarrow> world \<Rightarrow> run" where
  "advanceCurrent r w =
     (let r' = r\<lparr>current :=
                  js_rem (js_add (current r) (Num 1)) (Num (real (length (elements r))))\<rparr>
      in if cookie_persist r'
         then (case setSub (cookie_name r') ''current'' (current r') (cookie_settings r') w of
                 (x, w') \<Rightarrow> \<lparr>widget = r', host = w', thrown = x\<rparr>)
         else \<lparr>widget = r', host = w, thrown = None\<rparr>)"

text \<open>The local \<^verbatim>\<open>t\<close> of \<^verbatim>\<open>_schedule\<close>, for the clock reading \<^verbatim>\<open>(new Date()).getTime()\<close>.\<close>

definition schedule_t :: "rotator \<Rightarrow> nat \<Rightarrow> jsnum" where
  "schedule_t r getTime =
     (let d = js_mul (Num 1000) (Num (show_duration r))
      in if clock_sync r then js_sub d (js_rem (Num (real getTime)) d) else d)"

definition schedule :: "rotator \<Rightarrow> world \<Rightarrow> world" where
  "schedule r w = setTimeout (schedule_t r (now w)) w"

text \<open>
  \<^verbatim>\<open>_advance\<close>. When \<^verbatim>\<open>_advanceCurrent\<close> throws, the exception leaves \<^verbatim>\<open>_advance\<close> before
  \<^verbatim>\<open>anim.animate()\<close> is reached.
\<close>

definition advance :: "rotator \<Rightarrow> world \<Rightarrow> run" where
  "advance r w =
     (let els = elements r;
          total = Num (real (length els));
          idxCurrent = current r;
          idxNext = js_rem (js_add idxCurrent (Num 1)) total;
          cur = js_index els idxCurrent;
          next = js_index els idxNext
      in if strict_neq (Prim (Number idxNext) :: rotator operand) (Prim (Number (Num 0))) then
           (let a = advanceCurrent r (setStyle next ''visibility'' (Str ''visible'') w)
            in case thrown a of
                 Some e \<Rightarrow> a
               | None \<Rightarrow>
                   a\<lparr>host := animate next 1 (fade_duration r) (FadeUpComplete cur) (host a)\<rparr>)
         else
           (let a = advanceCurrent r
                      (setStyle next ''opacity'' (Number (Num 1))
                        (setStyle next ''visibility'' (Str ''visible'') w))
            in case thrown a of
                 Some e \<Rightarrow> a
               | None \<Rightarrow>
                   a\<lparr>host := animate cur 0 (fade_duration r) (FadeDownComplete cur) (host a)\<rparr>))"

text \<open>The bodies of the two \<^verbatim>\<open>onComplete\<close> subscribers.\<close>

fun onComplete :: "handler \<Rightarrow> rotator \<Rightarrow> world \<Rightarrow> world" where
  "onComplete (FadeUpComplete cur) r w =
     schedule r
       (setStyle cur ''visibility'' (Str ''hidden'')
         (setStyle cur ''opacity'' (Number (Num 0)) w))"
| "onComplete (FadeDownComplete cur) r w =
     schedule r (setStyle cur ''visibility'' (Str ''hidden'') w)"

text \<open>The element-preparation loop of \<^verbatim>\<open>render\<close>, over the remaining child nodes.\<close>

fun prepare ::
  "(node \<times> nat) list \<Rightarrow> nat \<Rightarrow> jsnum \<Rightarrow> node list \<Rightarrow> world \<Rightarrow> node list \<times> world" where
  "prepare [] j cur els w = (els, w)"
| "prepare ((n, nodeType) # nodes) j cur els w =
     (if nodeType = 1 then
        prepare nodes (Suc j) cur (els @ [n])
          (setStyle (Some n) ''opacity''
             (Number (Num (if strict_eq (Prim (Number (Num (real j))) :: rotator operand)
                                        (Prim (Number cur)) then 1 else 0)))
          (setStyle (Some n) ''visibility''
             (Str (if strict_eq (Prim (Number (Num (real j))) :: rotator operand)
                                (Prim (Number cur)) then ''visible'' else ''hidden''))
          (setStyle (Some n) ''zIndex'' (Number (Num (real j)))
          (setStyle (Some n) ''top'' (Number (Num 0))
          (setStyle (Some n) ''left'' (Number (Num 0))
          (setStyle (Some n) ''position'' (Str ''absolute'') w))))))
      else prepare nodes j cur els w)"

text \<open>
  \<^verbatim>\<open>render\<close>. When \<^verbatim>\<open>_initCurrent\<close> throws, the exception leaves \<^verbatim>\<open>render\<close> at once.
\<close>

definition render :: "rotator \<Rightarrow> world \<Rightarrow> run" where
  "render r w =
     (let el = element r;
          nodes = childNodes w el;
          len = length nodes
      in if len \<noteq> 0 then
           (let pos = getStyle w el ''position'';
                i = initCurrent r w
            in case thrown i of
                 Some e \<Rightarrow> i
               | None \<Rightarrow>
                   (let r1 = widget i;
                        w1 = host i;
                        w2 = (if \<not> truthy pos \<or>
                                 (case pos of
                                    None \<Rightarrow> False
                                  | Some v \<Rightarrow>
                                      strict_eq (Prim v :: rotator operand)
                                        (Prim (Str ''static'')))
                              then setStyle (Some el) ''position'' (Str ''relative'') w1
                              else w1)
                    in case prepare nodes 0 (current r1) [] w2 of
                         (els, w3) \<Rightarrow>
                           (let r2 = r1\<lparr>elements := els\<rparr>
                            in if strict_neq (Obj r2) (Prim (Number (Num 1)))
                               then \<lparr>widget = r2, host = schedule r2 w3, thrown = None\<rparr>
                               else \<lparr>widget = r2, host = w3, thrown = None\<rparr>)))
         else \<lparr>widget = r, host = w, thrown = None\<rparr>)"

section \<open>The host's event loop\<close>

text \<open>
  The two deferred callbacks that the host dispatches. The oldest pending timer fires
  and calls \<^verbatim>\<open>_advance\<close>; the oldest animation in flight reaches its last frame, which
  sets the animated opacity to its target, and then signals completion to its
  subscriber. An exception that leaves a callback ends that callback only.
\<close>

definition timer_fires :: "rotator \<Rightarrow> world \<Rightarrow> run" where
  "timer_fires r w =
     (case timers w of
        [] \<Rightarrow> \<lparr>widget = r, host = w, thrown = None\<rparr>
      | t # ts \<Rightarrow> advance r (w\<lparr>timers := ts\<rparr>))"

definition anim_completes :: "rotator \<Rightarrow> world \<Rightarrow> world" where
  "anim_completes r w =
     (case running w of
        [] \<Rightarrow> w
      | a # as \<Rightarrow>
          onComplete (tw_onComplete a) r
            ((case tw_el a of
                None \<Rightarrow> w
              | Some n \<Rightarrow>
                  w\<lparr>styles := (styles w)(n := (styles w n)(''opacity'' \<mapsto> Number (Num (tw_to a))))\<rparr>)
             \<lparr>running := as\<rparr>))"

section \<open>Derived notions used in the statements\<close>

text \<open>\<^verbatim>\<open>_advanceCurrent\<close> called \<open>n\<close> times in a row, whether or not a call throws.\<close>

fun advanceCurrent_times :: "nat \<Rightarrow> rotator \<Rightarrow> world \<Rightarrow> run" where
  "advanceCurrent_times 0 r w = \<lparr>widget = r, host = w, thrown = None\<rparr>"
| "advanceCurrent_times (Suc n) r w =
     advanceCurrent_times n (widget (advanceCurrent r w)) (host (advanceCurrent r w))"

text \<open>
  One whole transition (\<^verbatim>\<open>_advance\<close> initiates it, then its animation, if one was
  started, completes) and one cycle of the loop (the pending timer fires, then the
  animation completes).
\<close>

definition transition :: "rotator \<Rightarrow> world \<Rightarrow> run" where
  "transition r w =
     (let a = advance r w in a\<lparr>host := anim_completes (widget a) (host a)\<rparr>)"

definition cycle :: "rotator \<Rightarrow> world \<Rightarrow> run" where
  "cycle r w =
     (let a = timer_fires r w in a\<lparr>host := anim_completes (widget a) (host a)\<rparr>)"

text \<open>An element is shown (visible and opaque) or hidden (hidden and transparent).\<close>

definition shown :: "world \<Rightarrow> node \<Rightarrow> bool" where
  "shown w n \<longleftrightarrow>
     styles w n ''visibility'' = Some (Str ''visible'') \<and>
     styles w n ''opacity'' = Some (Number (Num 1))"

definition hidden :: "world \<Rightarrow> node \<Rightarrow> bool" where
  "hidden w n \<longleftrightarrow>
     styles w n ''visibility'' = Some (Str ''hidden'') \<and>
     styles w n ''opacity'' = Some (Number (Num 0))"

text \<open>
  The Idle invariant for the element at position \<open>c\<close>: it is shown and the element at
  every other position is hidden.
\<close>

definition idle_at :: "nat \<Rightarrow> node list \<Rightarrow> world \<Rightarrow> bool" where
  "idle_at c els w \<longleftrightarrow>
     c < length els \<and>
     list_all (\<lambda>j. if j = c then shown w (els ! j) else hidden w (els ! j)) [0..<length els]"

text \<open>The element-type children of a container, in document order.\<close>

definition element_children :: "world \<Rightarrow> node \<Rightarrow> node list" where
  "element_children w el = map fst (filter (\<lambda>p. snd p = 1) (childNodes w el))"

text \<open>The calls that write a cookie.\<close>

fun is_SetSub :: "event \<Rightarrow> bool" where
  "is_SetSub (SetSub name sub v opts) = True"
| "is_SetSub _ = False"

text \<open>
  The page is shown the cookie most recently assigned: a read of the name of the last
  assignment gives the sub-values of that assignment.
\<close>

definition shows_last_write :: "world \<Rightarrow> bool" where
  "shows_last_write w \<longleftrightarrow>
     (case rev (cookie_writes w) of
        [] \<Rightarrow> False
      | c # _ \<Rightarrow>
          browser w (cookie_writes w) (now w) (cw_name c) = Inr (Some (cw_hash c)))"

text \<open>
  The exception, if any, that an access of the widget's cookie throws on this host:
  none without persistence; otherwise the one of \<^verbatim>\<open>Cookie.getSubs\<close>, with which both
  the read and the write of the sub-value begin.
\<close>

definition cookie_access :: "rotator \<Rightarrow> world \<Rightarrow> error option" where
  "cookie_access r w =
     (if cookie_persist r
      then (case getSubs (cookie_name r) w of Inl e \<Rightarrow> Some e | Inr found \<Rightarrow> None)
      else None)"

text \<open>
  The spec's \<open>t mod d\<close> for a real period \<open>d\<close> (the floored modulus), and its
  interval \<open>[0, d)\<close> for the delay.
\<close>

definition rmod :: "real \<Rightarrow> real \<Rightarrow> real" where
  "rmod x d = x - d * of_int \<lfloor>x / d\<rfloor>"

definition delay_within :: "jsnum \<Rightarrow> real \<Rightarrow> bool" where
  "delay_within t d = (case t of NaN \<Rightarrow> False | Num x \<Rightarrow> 0 \<le> x \<and> x < d)"

section \<open>Concrete instances\<close>

text \<open>
  A browser for the examples, on a page with the path \<open>page\<close> that is served over plain
  http by a host that no domain option names. An assignment replaces the cookie of the
  same name, path and domain. The page is shown a cookie when the cookie's path covers
  the page's path, its expiry date, if any, is still to come, and it has neither a
  domain nor the secure flag. Reading the cookies never throws.
\<close>

definition path_covers :: "string \<Rightarrow> string \<Rightarrow> bool" where
  "path_covers p page \<longleftrightarrow>
     take (length p) page = p \<and>
     (length p = length page \<or> (p \<noteq> [] \<and> last p = CHR ''/'') \<or>
      (length p < length page \<and> page ! length p = CHR ''/''))"

definition store :: "cookie_write list \<Rightarrow> cookie_write \<Rightarrow> cookie_write list" where
  "store jar c =
     filter (\<lambda>c'. \<not> (cw_name c' = cw_name c \<and>
                      opt_path (cw_options c') = opt_path (cw_options c) \<and>
                      opt_domain (cw_options c') = opt_domain (cw_options c))) jar @ [c]"

definition page_shows :: "string \<Rightarrow> nat \<Rightarrow> cookie_write \<Rightarrow> bool" where
  "page_shows page t c \<longleftrightarrow>
     (case opt_path (cw_options c) of None \<Rightarrow> True | Some p \<Rightarrow> path_covers p page) \<and>
     (case opt_expires (cw_options c) of None \<Rightarrow> True | Some e \<Rightarrow> t < e) \<and>
     opt_domain (cw_options c) = None \<and> \<not> opt_secure (cw_options c)"

definition page_browser ::
  "string \<Rightarrow> cookie_write list \<Rightarrow> nat \<Rightarrow> string \<Rightarrow> error + (string \<rightharpoonup> jsnum) option" where
  "page_browser page writes t name =
     (case rev (filter (\<lambda>c. cw_name c = name \<and> page_shows page t c) (foldl store [] writes)) of
        [] \<Rightarrow> Inr None
      | c # _ \<Rightarrow> Inr (Some (cw_hash c)))"

text \<open>The default cookie settings, and settings whose path is another part of the site.\<close>

definition default_settings :: cookie_options where
  "default_settings =
     \<lparr>opt_expires = None, opt_path = Some ''/'', opt_domain = None, opt_secure = False\<rparr>"

definition elsewhere_settings :: cookie_options where
  "elsewhere_settings = default_settings\<lparr>opt_path := Some ''/elsewhere''\<rparr>"

definition shown_style :: "string \<rightharpoonup> jsval" where
  "shown_style = [''visibility'' \<mapsto> Str ''visible'', ''opacity'' \<mapsto> Number (Num 1)]"

definition hidden_style :: "string \<rightharpoonup> jsval" where
  "hidden_style = [''visibility'' \<mapsto> Str ''hidden'', ''opacity'' \<mapsto> Number (Num 0)]"

text \<open>
  The page \<^verbatim>\<open>/index.html\<close> at rest: only node \<open>v\<close> is shown, no cookie has been assigned
  and the clock reads 12000 ms.
\<close>

definition idle_page :: "node \<Rightarrow> world" where
  "idle_page v =
     \<lparr>childNodes = (\<lambda>_. []),
      styles = (\<lambda>n. if n = v then shown_style else hidden_style),
      cookie_writes = [], browser = page_browser ''/index.html'',
      now = 12000, timers = [], running = [], trace = []\<rparr>"

text \<open>
  A page, not yet rendered, whose container 0 holds the given child nodes, with the
  cookie assignments made before it was loaded.
\<close>

definition fresh_page :: "(node \<times> nat) list \<Rightarrow> cookie_write list \<Rightarrow> world" where
  "fresh_page nodes writes =
     \<lparr>childNodes = (\<lambda>n. if n = 0 then nodes else []),
      styles = (\<lambda>_. Map.empty),
      cookie_writes = writes, browser = page_browser ''/index.html'',
      now = 12000, timers = [], running = [], trace = []\<rparr>"

text \<open>The assignment that stores the index \<open>k\<close> under the default name and settings.\<close>

definition stored_index :: "nat \<Rightarrow> cookie_write" where
  "stored_index k =
     \<lparr>cw_name = ''elementrotator'', cw_hash = [''current'' \<mapsto> Num (real k)],
      cw_options = default_settings\<rparr>"

text \<open>
  The default configuration, the same with persistence switched on, and a widget with
  the default five seconds per element and clock sync switched on.
\<close>

definition default_config :: config where
  "default_config =
     \<lparr>cfg_show_duration = None, cfg_fade_duration = None, cfg_clock_sync = None,
      cfg_cookie_persist = None, cfg_cookie_name = None, cfg_cookie_settings = None\<rparr>"

definition persist_config :: config where
  "persist_config = default_config\<lparr>cfg_cookie_persist := Some True\<rparr>"

definition sync_rotator :: rotator where
  "sync_rotator = ElementRotator 0 (default_config\<lparr>cfg_clock_sync := Some True\<rparr>)"

text \<open>
  Widgets on container 0 that rotate the three nodes 1, 2 and 3 from the index \<open>c\<close>,
  without and with persistence.
\<close>

definition rotator3 :: "nat \<Rightarrow> rotator" where
  "rotator3 c = (ElementRotator 0 default_config)\<lparr>elements := [1, 2, 3], current := Num (real c)\<rparr>"

definition persist_rotator3 :: "nat \<Rightarrow> rotator" where
  "persist_rotator3 c =
     (ElementRotator 0 persist_config)\<lparr>elements := [1, 2, 3], current := Num (real c)\<rparr>"

text \<open>
  Persistence with settings whose path does not cover the page, and persistence under
  the empty cookie name.
\<close>

definition elsewhere_config :: config where
  "elsewhere_config = persist_config\<lparr>cfg_cookie_settings := Some elsewhere_settings\<rparr>"

definition nameless_config :: config where
  "nameless_config = persist_config\<lparr>cfg_cookie_name := Some []\<rparr>"

text \<open>
  A page whose container 0 holds one element, node 1, rendered by a widget with the
  default configuration; then the first and the second cycle of the loop.
\<close>

definition single_rendered :: run where
  "single_rendered = render (ElementRotator 0 default_config) (fresh_page [(1, 1)] [])"

definition single_cycled :: run where
  "single_cycled = cycle (widget single_rendered) (host single_rendered)"

definition single_cycled_twice :: run where
  "single_cycled_twice = cycle (widget single_cycled) (host single_cycled)"

section \<open>Index arithmetic\<close>

lemma js_rem_nat:
  assumes "0 < n"
  shows "js_rem (Num (real a)) (Num (real n)) = Num (real (a mod n))"
proof -
  have "js_trunc (real a / real n) = int (a div n)"
    by (simp add: js_trunc_def floor_divide_of_nat_eq)
  moreover have "real a - real n * real (a div n) = real (a mod n)"
    by (metis add_diff_cancel_left' mult_div_mod_eq of_nat_add of_nat_mult)
  ultimately show ?thesis using assms by simp
qed

lemma advanceCurrent_widget:
  "widget (advanceCurrent r w) =
     r\<lparr>current := js_rem (js_add (current r) (Num 1)) (Num (real (length (elements r))))\<rparr>"
  by (simp add: advanceCurrent_def Let_def split: prod.splits)

lemma advanceCurrent_elements: "elements (widget (advanceCurrent r w)) = elements r"
  by (simp add: advanceCurrent_widget)

lemma advanceCurrent_current:
  assumes "elements r \<noteq> []" and "current r = Num (real c)"
  shows "current (widget (advanceCurrent r w)) = Num (real ((c + 1) mod length (elements r)))"
proof -
  have "js_add (current r) (Num 1) = Num (real (c + 1))"
    using assms(2) by simp
  then have "current (widget (advanceCurrent r w)) =
      js_rem (Num (real (c + 1))) (Num (real (length (elements r))))"
    by (simp add: advanceCurrent_widget)
  also have "\<dots> = Num (real ((c + 1) mod length (elements r)))"
    using assms(1) by (intro js_rem_nat) simp
  finally show ?thesis .
qed

lemma advanceCurrent_times_current:
  assumes "elements r \<noteq> []" and "current r = Num (real c)"
  shows "current (widget (advanceCurrent_times (Suc k) r w)) =
         Num (real ((c + Suc k) mod length (elements r)))"
  using assms
proof (induction k arbitrary: r w c)
  case 0
  with advanceCurrent_current [OF 0, of w] show ?case by simp
next
  case (Suc k)
  let ?r' = "widget (advanceCurrent r w)" and ?w' = "host (advanceCurrent r w)"
  have e: "elements ?r' = elements r" by (rule advanceCurrent_elements)
  have c: "current ?r' = Num (real ((c + 1) mod length (elements r)))"
    using Suc.prems by (rule advanceCurrent_current)
  have "current (widget (advanceCurrent_times (Suc k) ?r' ?w')) =
        Num (real (((c + 1) mod length (elements r) + Suc k) mod length (elements r)))"
    using Suc.IH [of ?r' "(c + 1) mod length (elements r)" ?w'] e c Suc.prems(1) by simp
  moreover have "((c + 1) mod length (elements r) + Suc k) mod length (elements r) =
                 (c + Suc (Suc k)) mod length (elements r)"
    using mod_add_left_eq [of "c + 1" "length (elements r)" "Suc k"]
    by (simp only: add_Suc_right add_Suc add_0_right One_nat_def)
  ultimately show ?case by simp
qed

text \<open>
  Claim C3. With at least one element and the current index \<open>c\<close> below the number
  \<open>N\<close> of elements, one call of \<^verbatim>\<open>_advanceCurrent\<close> sets the current index to
  \<open>(c + 1) mod N\<close>, and \<open>N\<close> calls in a row bring it back to \<open>c\<close>.
\<close>

theorem advanceCurrent_cycle:
  assumes "elements r \<noteq> []" and "c < length (elements r)" and "current r = Num (real c)"
  shows "current (widget (advanceCurrent r w)) = Num (real ((c + 1) mod length (elements r))) \<and>
         current (widget (advanceCurrent_times (length (elements r)) r w)) = Num (real c)"
proof -
  obtain k where k: "length (elements r) = Suc k"
    using assms(1) by (cases "elements r") auto
  have "current (widget (advanceCurrent_times (Suc k) r w)) =
        Num (real ((c + Suc k) mod length (elements r)))"
    using assms(1,3) by (rule advanceCurrent_times_current)
  moreover have "(c + Suc k) mod length (elements r) = c"
    using assms(2) mod_add_self2 [of c "Suc k"] unfolding k by simp
  ultimately show ?thesis
    using advanceCurrent_current [OF assms(1,3), of w] k by simp
qed

theorem advanceCurrent_cycle_witness:
  "elements (rotator3 2) \<noteq> [] \<and> 2 < length (elements (rotator3 2)) \<and>
   current (rotator3 2) = Num (real 2) \<and>
   current (widget (advanceCurrent (rotator3 2) (idle_page 3))) = Num 0 \<and>
   current (widget (advanceCurrent_times 3 (rotator3 2) (idle_page 3))) = Num 2"
proof -
  have len: "length (elements (rotator3 2)) = 3"
    by (simp add: rotator3_def)
  have hyps: "elements (rotator3 2) \<noteq> []" "2 < length (elements (rotator3 2))"
    "current (rotator3 2) = Num (real 2)"
    by (simp_all add: rotator3_def)
  from advanceCurrent_cycle [OF hyps, of "idle_page 3"] show ?thesis
    unfolding len using hyps by simp
qed

section \<open>The scheduler's delay\<close>

lemma rmod_bounds:
  assumes "0 < d"
  shows "0 \<le> rmod x d \<and> rmod x d < d"
proof -
  have "of_int \<lfloor>x / d\<rfloor> * d \<le> x" using assms by (rule floor_divide_lower)
  moreover have "x < (of_int \<lfloor>x / d\<rfloor> + 1) * d" using assms by (rule floor_divide_upper)
  ultimately show ?thesis by (simp add: rmod_def algebra_simps)
qed

lemma rmod_nat:
  assumes "0 < n"
  shows "rmod (real t) (real n) = real (t mod n)"
proof -
  have "real t - real n * real (t div n) = real (t mod n)"
    by (metis add_diff_cancel_left' mult_div_mod_eq of_nat_add of_nat_mult)
  then show ?thesis by (simp add: rmod_def floor_divide_of_nat_eq)
qed

lemma js_rem_rmod:
  assumes "0 < d"
  shows "js_rem (Num (real t)) (Num d) = Num (rmod (real t) d)"
proof -
  have "0 \<le> real t / d" using assms by simp
  then have "js_trunc (real t / d) = \<lfloor>real t / d\<rfloor>" by (simp add: js_trunc_def)
  then show ?thesis using assms by (simp add: rmod_def)
qed

text \<open>
  Claim C2, as the code has it. For a positive show duration, \<open>d = 1000 * showDuration\<close>
  and a clock reading of \<open>t\<close> milliseconds since the epoch: with clock sync the delay is
  \<open>d - (t mod d)\<close>, which lies in the interval \<open>(0, d]\<close> (for a whole number \<open>n\<close> of
  seconds, \<open>t mod d\<close> is the remainder of the integers); for \<open>d = 5000\<close> and
  \<open>t = 12000\<close> it is 3000; without clock sync the delay is \<open>d\<close> whatever \<open>t\<close> is.
\<close>

theorem schedule_t_delay:
  assumes "0 < show_duration r" and "d = 1000 * show_duration r"
  shows "(clock_sync r \<longrightarrow>
           schedule_t r t = Num (d - rmod (real t) d) \<and>
           0 < d - rmod (real t) d \<and> d - rmod (real t) d \<le> d) \<and>
         (clock_sync r \<and> show_duration r = real n \<longrightarrow>
           schedule_t r t = Num (d - real (t mod (1000 * n)))) \<and>
         (clock_sync r \<and> d = 5000 \<longrightarrow> schedule_t r 12000 = Num 3000) \<and>
         (\<not> clock_sync r \<longrightarrow> schedule_t r t = Num d)"
proof -
  have d: "0 < d" using assms by simp
  have sync: "schedule_t r u = Num (d - rmod (real u) d)" if "clock_sync r" for u
    using that js_rem_rmod [OF d, of u] assms(2) by (simp add: schedule_t_def)
  have "rmod (real (12000::nat)) 5000 = 2000"
    by (simp add: rmod_def)
  then have fixed: "clock_sync r \<and> d = 5000 \<longrightarrow> schedule_t r 12000 = Num 3000"
    using sync [of 12000] by auto
  have whole: "rmod (real t) d = real (t mod (1000 * n))" if "show_duration r = real n"
  proof -
    have "0 < 1000 * n" using that assms(1) by simp
    then have "rmod (real t) (real (1000 * n)) = real (t mod (1000 * n))"
      by (rule rmod_nat)
    then show ?thesis using that assms(2) by simp
  qed
  have plain: "\<not> clock_sync r \<longrightarrow> schedule_t r t = Num d"
    using assms(2) by (simp add: schedule_t_def)
  show ?thesis
    using sync [of t] rmod_bounds [OF d, of "real t"] whole fixed plain by auto
qed

theorem schedule_t_delay_witness:
  "0 < show_duration sync_rotator \<and> clock_sync sync_rotator \<and>
   show_duration sync_rotator = real 5 \<and>
   schedule_t sync_rotator 12000 = Num 3000 \<and>
   schedule_t sync_rotator 10000 = Num (5000 - real (10000 mod (1000 * 5))) \<and>
   \<not> clock_sync (ElementRotator 0 default_config) \<and>
   schedule_t (ElementRotator 0 default_config) 12000 = Num 5000"
  using schedule_t_delay [of sync_rotator 5000 12000 5]
    schedule_t_delay [of sync_rotator 5000 10000 5]
    schedule_t_delay [of "ElementRotator 0 default_config" 5000 12000 5]
  by (simp add: sync_rotator_def ElementRotator_def default_config_def rmod_def)

text \<open>
  The interval \<open>[0, d)\<close> of the claim fails when the clock is on a boundary of the grid:
  at \<open>t = 10000\<close> with \<open>d = 5000\<close> the delay is \<open>d\<close> itself.
\<close>

theorem schedule_t_boundary_counterexample:
  "schedule_t sync_rotator 10000 = Num 5000 \<and>
   \<not> delay_within (schedule_t sync_rotator 10000) (1000 * show_duration sync_rotator)"
  by (simp add: schedule_t_def sync_rotator_def ElementRotator_def default_config_def
      js_trunc_def delay_within_def)

section \<open>Persistence of the current index\<close>

lemma setSub_frame:
  "styles (snd (setSub name sub v opts w)) = styles w"
  "running (snd (setSub name sub v opts w)) = running w"
  "timers (snd (setSub name sub v opts w)) = timers w"
  "now (snd (setSub name sub v opts w)) = now w"
  "browser (snd (setSub name sub v opts w)) = browser w"
  "childNodes (snd (setSub name sub v opts w)) = childNodes w"
  "trace (snd (setSub name sub v opts w)) = trace w @ [SetSub name sub v opts]"
  by (simp_all add: setSub_def Let_def split: sum.splits)

lemma setSub_thrown:
  "fst (setSub name ''current'' v opts w) =
     (case getSubs name w of Inl e \<Rightarrow> Some e | Inr found \<Rightarrow> None)"
  by (simp add: setSub_def getSubs_def Let_def split: sum.splits)

lemma setSub_writes:
  assumes "getSubs name w = Inr found"
  shows "cookie_writes (snd (setSub name ''current'' v opts w)) =
     cookie_writes w @
       [\<lparr>cw_name = name,
         cw_hash = (case found of None \<Rightarrow> Map.empty | Some h \<Rightarrow> h)(''current'' \<mapsto> v),
         cw_options = opts\<rparr>]"
  using assms by (auto simp: setSub_def getSubs_def Let_def split: if_splits)

lemma advanceCurrent_host:
  "host (advanceCurrent r w) =
     (if cookie_persist r
      then snd (setSub (cookie_name r) ''current'' (current (widget (advanceCurrent r w)))
                  (cookie_settings r) w)
      else w)"
  by (simp add: advanceCurrent_def Let_def split: prod.splits)

lemma advanceCurrent_thrown: "thrown (advanceCurrent r w) = cookie_access r w"
proof -
  have "thrown (advanceCurrent r w) =
      (if cookie_persist r
       then fst (setSub (cookie_name r) ''current'' (current (widget (advanceCurrent r w)))
                   (cookie_settings r) w)
       else None)"
    by (simp add: advanceCurrent_def Let_def split: prod.splits)
  then show ?thesis
    by (simp add: setSub_thrown cookie_access_def)
qed

lemma advanceCurrent_writes:
  assumes "cookie_persist r" and "cookie_access r w = None"
  shows "cookie_writes (host (advanceCurrent r w)) =
     cookie_writes w @
       [\<lparr>cw_name = cookie_name r,
         cw_hash = (case getSubs (cookie_name r) w of
                      Inr (Some h) \<Rightarrow> h | _ \<Rightarrow> Map.empty)
                   (''current'' \<mapsto> current (widget (advanceCurrent r w))),
         cw_options = cookie_settings r\<rparr>]"
proof -
  from assms obtain found where found: "getSubs (cookie_name r) w = Inr found"
    by (auto simp: cookie_access_def split: sum.splits)
  show ?thesis
    using assms(1) setSub_writes [OF found]
    by (cases found) (simp_all add: advanceCurrent_host found)
qed

lemma cookie_access_name:
  assumes "cookie_persist r" and "cookie_access r w = None"
  shows "cookie_name r \<noteq> []"
  using assms by (auto simp: cookie_access_def getSubs_def)

lemma getSub_shown:
  assumes "name \<noteq> []" and "browser w (cookie_writes w) (now w) name = Inr (Some h)"
  shows "fst (getSub name ''current'' w) = Inr (h ''current'')"
  using assms by (simp add: getSub_def getSubs_def)

lemma initCurrent_read:
  assumes "cookie_persist r" and "fst (getSub (cookie_name r) ''current'' w) = Inr (Some c)"
  shows "current (widget (initCurrent r w)) =
           (if c \<noteq> Num 0 \<and> c \<noteq> NaN then c else current r)"
    and "thrown (initCurrent r w) = None"
  using assms
  by (cases "getSub (cookie_name r) ''current'' w"; simp add: initCurrent_def)+

lemma shows_last_write_snoc:
  assumes "shows_last_write w" and "cookie_writes w = ws @ [c]"
  shows "browser w (cookie_writes w) (now w) (cw_name c) = Inr (Some (cw_hash c))"
  using assms by (simp add: shows_last_write_def)

text \<open>
  Claim C4, as the code has it. Let a prior instance with persistence enabled and at
  least one element advance to the index \<open>k\<close>, below its number of elements, and store
  it under its cookie name (the write does not throw). Let a new instance be
  constructed with persistence enabled and the same cookie name, on a page whose
  cookies are the ones assigned so far and which is shown the cookie that the prior
  instance assigned. Then the new instance reads \<open>k\<close> back: \<^verbatim>\<open>_initCurrent\<close> sets its
  current index to \<open>k\<close>.
\<close>

theorem persist_round_trip:
  assumes "cookie_persist prior" and "elements prior \<noteq> []"
    and "k < length (elements prior)"
    and "current (widget (advanceCurrent prior w)) = Num (real k)"
    and "thrown (advanceCurrent prior w) = None"
    and "cfg_cookie_persist cfg = Some True"
    and "cookie_name (ElementRotator ctr cfg) = cookie_name prior"
    and "cookie_writes w2 = cookie_writes (host (advanceCurrent prior w))"
    and "shows_last_write w2"
  shows "fst (getSub (cookie_name prior) ''current'' w2) = Inr (Some (Num (real k))) \<and>
         current (widget (initCurrent (ElementRotator ctr cfg) w2)) = Num (real k) \<and>
         thrown (initCurrent (ElementRotator ctr cfg) w2) = None"
proof -
  let ?new = "ElementRotator ctr cfg"
  have access: "cookie_access prior w = None"
    using assms(5) by (simp add: advanceCurrent_thrown)
  have name: "cookie_name prior \<noteq> []"
    using assms(1) access by (rule cookie_access_name)
  let ?c = "\<lparr>cw_name = cookie_name prior,
         cw_hash = (case getSubs (cookie_name prior) w of
                      Inr (Some h) \<Rightarrow> h | _ \<Rightarrow> Map.empty)
                   (''current'' \<mapsto> Num (real k)),
         cw_options = cookie_settings prior\<rparr>"
  have "cookie_writes w2 = cookie_writes w @ [?c]"
    using advanceCurrent_writes [OF assms(1) access] assms(4,8) by simp
  with assms(9) have "browser w2 (cookie_writes w2) (now w2) (cw_name ?c) =
      Inr (Some (cw_hash ?c))"
    by (rule shows_last_write_snoc)
  then have "browser w2 (cookie_writes w2) (now w2) (cookie_name prior) =
      Inr (Some (cw_hash ?c))"
    by simp
  with name have "fst (getSub (cookie_name prior) ''current'' w2) = Inr (cw_hash ?c ''current'')"
    by (rule getSub_shown)
  then have stored: "fst (getSub (cookie_name prior) ''current'' w2) = Inr (Some (Num (real k)))"
    by simp
  have fresh: "cookie_persist ?new" "current ?new = Num 0"
    using assms(6) by (simp_all add: ElementRotator_def)
  have read: "fst (getSub (cookie_name ?new) ''current'' w2) = Inr (Some (Num (real k)))"
    using stored assms(7) by simp
  have "current (widget (initCurrent ?new w2)) =
        (if Num (real k) \<noteq> Num 0 \<and> Num (real k) \<noteq> NaN then Num (real k) else current ?new)"
    using fresh(1) read by (rule initCurrent_read(1))
  then have "current (widget (initCurrent ?new w2)) = Num (real k)"
    using fresh(2) by (cases "k = 0") simp_all
  moreover have "thrown (initCurrent ?new w2) = None"
    using fresh(1) read by (rule initCurrent_read(2))
  ultimately show ?thesis using stored by simp
qed

theorem persist_round_trip_witness:
  "cookie_persist (persist_rotator3 0) \<and> elements (persist_rotator3 0) \<noteq> [] \<and>
   1 < length (elements (persist_rotator3 0)) \<and>
   current (widget (advanceCurrent (persist_rotator3 0) (idle_page 1))) = Num (real 1) \<and>
   thrown (advanceCurrent (persist_rotator3 0) (idle_page 1)) = None \<and>
   cfg_cookie_persist persist_config = Some True \<and>
   cookie_name (ElementRotator 0 persist_config) = cookie_name (persist_rotator3 0) \<and>
   shows_last_write (host (advanceCurrent (persist_rotator3 0) (idle_page 1))) \<and>
   current (widget (initCurrent (ElementRotator 0 persist_config)
                      (host (advanceCurrent (persist_rotator3 0) (idle_page 1))))) = Num 1"
proof -
  have cfg: "cookie_persist (persist_rotator3 0)"
    "cookie_name (persist_rotator3 0) = ''elementrotator''"
    "cookie_settings (persist_rotator3 0) = default_settings"
    by (simp_all add: persist_rotator3_def persist_config_def default_config_def
        ElementRotator_def default_settings_def)
  have read: "getSubs ''elementrotator'' (idle_page v) = Inr None" for v
    by (simp add: getSubs_def idle_page_def page_browser_def)
  have access: "cookie_access (persist_rotator3 0) (idle_page v) = None" for v
    by (simp add: cookie_access_def cfg read)
  have adv: "current (widget (advanceCurrent (persist_rotator3 0) (idle_page 1))) = Num (real 1)"
    by (simp add: advanceCurrent_widget persist_rotator3_def js_trunc_def)
  have ok: "thrown (advanceCurrent (persist_rotator3 0) (idle_page 1)) = None"
    by (simp add: advanceCurrent_thrown access)
  have writes: "cookie_writes (host (advanceCurrent (persist_rotator3 0) (idle_page 1))) =
      [\<lparr>cw_name = ''elementrotator'', cw_hash = [''current'' \<mapsto> Num 1],
        cw_options = default_settings\<rparr>]"
    using advanceCurrent_writes [OF cfg(1) access, of 1]
    unfolding cfg read adv by (simp add: idle_page_def)
  have frame: "browser (host (advanceCurrent (persist_rotator3 0) (idle_page 1))) =
        page_browser ''/index.html''"
    "now (host (advanceCurrent (persist_rotator3 0) (idle_page 1))) = 12000"
    by (simp_all add: advanceCurrent_host cfg setSub_frame idle_page_def)
  have shown: "shows_last_write (host (advanceCurrent (persist_rotator3 0) (idle_page 1)))"
    unfolding shows_last_write_def writes frame
    by (simp add: page_browser_def store_def page_shows_def default_settings_def
        path_covers_def)
  have hyps: "elements (persist_rotator3 0) \<noteq> []"
    "1 < length (elements (persist_rotator3 0))"
    "cfg_cookie_persist persist_config = Some True"
    "cookie_name (ElementRotator 0 persist_config) = cookie_name (persist_rotator3 0)"
    by (simp_all add: persist_rotator3_def persist_config_def ElementRotator_def)
  from persist_round_trip [OF cfg(1) hyps(1,2) adv ok hyps(3,4) refl shown] show ?thesis
    using cfg(1) adv ok hyps shown by simp
qed

text \<open>
  The claim fails when the cookie settings do not cover the page. A prior instance on
  the page \<^verbatim>\<open>/index.html\<close>, with persistence enabled and the cookie path
  \<^verbatim>\<open>/elsewhere\<close>, advances to the index 1 and assigns the cookie; a new instance with the
  same name and settings on the same page is not shown that cookie and starts at 0.
\<close>

theorem persist_round_trip_counterexample:
  "cookie_persist ((ElementRotator 0 elsewhere_config)\<lparr>elements := [1, 2, 3]\<rparr>) \<and>
   current (widget (advanceCurrent ((ElementRotator 0 elsewhere_config)\<lparr>elements := [1, 2, 3]\<rparr>)
                      (idle_page 1))) = Num 1 \<and>
   thrown (advanceCurrent ((ElementRotator 0 elsewhere_config)\<lparr>elements := [1, 2, 3]\<rparr>)
             (idle_page 1)) = None \<and>
   cookie_writes (host (advanceCurrent
                          ((ElementRotator 0 elsewhere_config)\<lparr>elements := [1, 2, 3]\<rparr>)
                          (idle_page 1))) =
     [\<lparr>cw_name = ''elementrotator'', cw_hash = [''current'' \<mapsto> Num 1],
       cw_options = elsewhere_settings\<rparr>] \<and>
   cookie_name (ElementRotator 0 elsewhere_config) =
     cookie_name ((ElementRotator 0 elsewhere_config)\<lparr>elements := [1, 2, 3]\<rparr>) \<and>
   current (widget (initCurrent (ElementRotator 0 elsewhere_config)
                      (host (advanceCurrent
                               ((ElementRotator 0 elsewhere_config)\<lparr>elements := [1, 2, 3]\<rparr>)
                               (idle_page 1))))) = Num 0"
  by (simp add: advanceCurrent_def initCurrent_def getSub_def getSubs_def setSub_def Let_def
      ElementRotator_def elsewhere_config_def persist_config_def default_config_def
      elsewhere_settings_def default_settings_def idle_page_def page_browser_def store_def
      page_shows_def path_covers_def js_trunc_def)

section \<open>Rendering\<close>

lemma setStyle_frame:
  "timers (setStyle el p v w) = timers w"
  "now (setStyle el p v w) = now w"
  "cookie_writes (setStyle el p v w) = cookie_writes w"
  "browser (setStyle el p v w) = browser w"
  "running (setStyle el p v w) = running w"
  "childNodes (setStyle el p v w) = childNodes w"
  by (cases el; simp add: setStyle_def)+

lemma setStyle_styles:
  "styles (setStyle (Some n) p v w) = (styles w)(n := (styles w n)(p \<mapsto> v))"
  by (simp add: setStyle_def)

lemma setStyle_other:
  "el \<noteq> Some m \<Longrightarrow> styles (setStyle el p v w) m = styles w m"
  by (cases el) (auto simp: setStyle_def)

lemma setStyle_trace: "trace (setStyle el p v w) = trace w @ [SetStyle el p v]"
  by (cases el) (simp_all add: setStyle_def)

lemma prepare_frame:
  "timers (snd (prepare nodes j cur els w)) = timers w \<and>
   now (snd (prepare nodes j cur els w)) = now w \<and>
   cookie_writes (snd (prepare nodes j cur els w)) = cookie_writes w \<and>
   running (snd (prepare nodes j cur els w)) = running w"
  by (induction nodes j cur els w rule: prepare.induct) (simp_all add: setStyle_frame)

lemma prepare_elements:
  "fst (prepare nodes j cur els w) = els @ map fst (filter (\<lambda>p. snd p = 1) nodes)"
  by (induction nodes j cur els w rule: prepare.induct) simp_all

lemma initCurrent_thrown: "thrown (initCurrent r w) = cookie_access r w"
  by (simp add: initCurrent_def getSub_def cookie_access_def split: sum.splits option.splits)

lemma initCurrent_frame:
  "timers (host (initCurrent r w)) = timers w"
  "now (host (initCurrent r w)) = now w"
  "cookie_writes (host (initCurrent r w)) = cookie_writes w"
  "running (host (initCurrent r w)) = running w"
  "styles (host (initCurrent r w)) = styles w"
  "trace (host (initCurrent r w)) =
     trace w @ (if cookie_persist r then [GetSub (cookie_name r) ''current''] else [])"
  by (simp_all add: initCurrent_def getSub_def split: sum.splits option.splits)

lemma initCurrent_config:
  "show_duration (widget (initCurrent r w)) = show_duration r"
  "clock_sync (widget (initCurrent r w)) = clock_sync r"
  "element (widget (initCurrent r w)) = element r"
  by (simp_all add: initCurrent_def getSub_def split: sum.splits option.splits)

lemma schedule_t_cong:
  "show_duration r' = show_duration r \<Longrightarrow> clock_sync r' = clock_sync r \<Longrightarrow>
   schedule_t r' t = schedule_t r t"
  by (simp add: schedule_t_def)

lemma schedule_frame:
  "timers (schedule r w) = timers w @ [schedule_t r (now w)]"
  "trace (schedule r w) = trace w @ [SetTimeout (schedule_t r (now w))]"
  "styles (schedule r w) = styles w"
  "cookie_writes (schedule r w) = cookie_writes w"
  "running (schedule r w) = running w"
  "now (schedule r w) = now w"
  by (simp_all add: schedule_def setTimeout_def)

text \<open>
  What \<^verbatim>\<open>render\<close> does for a container with at least one child node: when
  \<^verbatim>\<open>_initCurrent\<close> returns, and when it throws.
\<close>

lemma render_unfold:
  assumes "childNodes w (element r) \<noteq> []"
    and "thrown (initCurrent r w) = None"
    and "r1 = widget (initCurrent r w)"
    and "w2 = (if \<not> truthy (getStyle w (element r) ''position'') \<or>
                  (case getStyle w (element r) ''position'' of
                     None \<Rightarrow> False
                   | Some v \<Rightarrow> strict_eq (Prim v :: rotator operand) (Prim (Str ''static'')))
               then setStyle (Some (element r)) ''position'' (Str ''relative'')
                      (host (initCurrent r w))
               else host (initCurrent r w))"
    and "p = prepare (childNodes w (element r)) 0 (current r1) [] w2"
  shows "render r w =
     \<lparr>widget = r1\<lparr>elements := fst p\<rparr>, host = schedule (r1\<lparr>elements := fst p\<rparr>) (snd p),
      thrown = None\<rparr>"
  using assms
  by (simp add: render_def Let_def strict_neq_def split: prod.splits)

lemma render_throws:
  assumes "childNodes w (element r) \<noteq> []" and "thrown (initCurrent r w) = Some e"
  shows "render r w = initCurrent r w"
  using assms by (simp add: render_def Let_def)

lemma render_nonempty:
  assumes "childNodes w (element r) \<noteq> []" and "thrown (initCurrent r w) = None"
  obtains w2 where
    "w2 = host (initCurrent r w) \<or>
     w2 = setStyle (Some (element r)) ''position'' (Str ''relative'') (host (initCurrent r w))"
    and "render r w =
      \<lparr>widget = (widget (initCurrent r w))
         \<lparr>elements := fst (prepare (childNodes w (element r)) 0
                             (current (widget (initCurrent r w))) [] w2)\<rparr>,
       host = schedule
         ((widget (initCurrent r w))
            \<lparr>elements := fst (prepare (childNodes w (element r)) 0
                                (current (widget (initCurrent r w))) [] w2)\<rparr>)
         (snd (prepare (childNodes w (element r)) 0
                 (current (widget (initCurrent r w))) [] w2)),
       thrown = None\<rparr>"
proof -
  define w2 where "w2 =
     (if \<not> truthy (getStyle w (element r) ''position'') \<or>
         (case getStyle w (element r) ''position'' of
            None \<Rightarrow> False
          | Some v \<Rightarrow> strict_eq (Prim v :: rotator operand) (Prim (Str ''static'')))
      then setStyle (Some (element r)) ''position'' (Str ''relative'') (host (initCurrent r w))
      else host (initCurrent r w))"
  have "w2 = host (initCurrent r w) \<or>
     w2 = setStyle (Some (element r)) ''position'' (Str ''relative'') (host (initCurrent r w))"
    unfolding w2_def by (cases "truthy (getStyle w (element r) ''position'')") auto
  moreover note render_unfold [OF assms refl w2_def refl]
  ultimately show thesis by (rule that)
qed

text \<open>
  Claim C9, as the code has it. The check \<^verbatim>\<open>this !== 1\<close> of \<^verbatim>\<open>render\<close> compares the
  widget, an object, with the number 1 and is true for every widget, so it never keeps
  \<^verbatim>\<open>render\<close> from scheduling. For a container with at least one child node: when the
  cookie access of \<^verbatim>\<open>_initCurrent\<close> throws nothing (there is none without persistence),
  \<^verbatim>\<open>render\<close> returns and its last call to the host is the \<^verbatim>\<open>setTimeout\<close> of
  \<^verbatim>\<open>_schedule\<close>, which leaves one more timer pending; when it throws, as it does with
  persistence enabled and an empty cookie name, the exception leaves \<^verbatim>\<open>render\<close> before
  the scheduler is reached, and no timer is set.
\<close>

theorem render_schedules_unless_thrown:
  "strict_neq (Obj r) (Prim (Number (Num 1))) \<and>
   (childNodes w (element r) \<noteq> [] \<and> cookie_access r w = None \<longrightarrow>
      thrown (render r w) = None \<and>
      (\<exists>w'. host (render r w) = schedule (widget (render r w)) w' \<and> timers w' = timers w) \<and>
      timers (host (render r w)) = timers w @ [schedule_t r (now w)] \<and>
      last (trace (host (render r w))) = SetTimeout (schedule_t r (now w))) \<and>
   (childNodes w (element r) \<noteq> [] \<and> cookie_access r w \<noteq> None \<longrightarrow>
      thrown (render r w) = cookie_access r w \<and>
      timers (host (render r w)) = timers w \<and>
      trace (host (render r w)) = trace w @ [GetSub (cookie_name r) ''current'']) \<and>
   (cookie_persist r \<and> cookie_name r = [] \<longrightarrow> cookie_access r w = Some TypeError)"
proof -
  have "strict_neq (Obj r) (Prim (Number (Num 1)))"
    by (simp add: strict_neq_def)
  moreover have "thrown (render r w) = None \<and>
      (\<exists>w'. host (render r w) = schedule (widget (render r w)) w' \<and> timers w' = timers w) \<and>
      timers (host (render r w)) = timers w @ [schedule_t r (now w)] \<and>
      last (trace (host (render r w))) = SetTimeout (schedule_t r (now w))"
    if ne: "childNodes w (element r) \<noteq> []" and ok: "cookie_access r w = None"
  proof -
    have returns: "thrown (initCurrent r w) = None"
      using ok by (simp add: initCurrent_thrown)
    from ne returns obtain w2 where
      w2: "w2 = host (initCurrent r w) \<or>
           w2 = setStyle (Some (element r)) ''position'' (Str ''relative'')
                  (host (initCurrent r w))"
      and rend: "render r w =
        \<lparr>widget = (widget (initCurrent r w))
           \<lparr>elements := fst (prepare (childNodes w (element r)) 0
                               (current (widget (initCurrent r w))) [] w2)\<rparr>,
         host = schedule
           ((widget (initCurrent r w))
              \<lparr>elements := fst (prepare (childNodes w (element r)) 0
                                  (current (widget (initCurrent r w))) [] w2)\<rparr>)
           (snd (prepare (childNodes w (element r)) 0
                   (current (widget (initCurrent r w))) [] w2)),
         thrown = None\<rparr>"
      by (rule render_nonempty)
    let ?w3 = "snd (prepare (childNodes w (element r)) 0
                      (current (widget (initCurrent r w))) [] w2)"
    have "timers w2 = timers w" "now w2 = now w"
      using w2 by (auto simp: setStyle_frame initCurrent_frame)
    then have w3: "timers ?w3 = timers w" "now ?w3 = now w"
      by (simp_all add: prepare_frame)
    have t: "schedule_t (widget (render r w)) (now w) = schedule_t r (now w)"
      by (rule schedule_t_cong) (simp_all add: rend initCurrent_config)
    have "host (render r w) = schedule (widget (render r w)) ?w3"
      by (simp add: rend)
    then show ?thesis
      using w3 t by (auto simp: schedule_frame rend)
  qed
  moreover have "thrown (render r w) = cookie_access r w \<and>
      timers (host (render r w)) = timers w \<and>
      trace (host (render r w)) = trace w @ [GetSub (cookie_name r) ''current'']"
    if ne: "childNodes w (element r) \<noteq> []" and bad: "cookie_access r w \<noteq> None"
  proof -
    from bad obtain e where e: "cookie_access r w = Some e" by auto
    then have persist: "cookie_persist r"
      by (auto simp: cookie_access_def split: if_splits)
    have "thrown (initCurrent r w) = Some e"
      using e by (simp add: initCurrent_thrown)
    with ne have "render r w = initCurrent r w" by (rule render_throws)
    then show ?thesis
      using persist by (simp add: initCurrent_thrown initCurrent_frame)
  qed
  moreover have "cookie_access r w = Some TypeError"
    if "cookie_persist r \<and> cookie_name r = []"
    using that by (simp add: cookie_access_def getSubs_def)
  ultimately show ?thesis by blast
qed

theorem render_schedules_unless_thrown_witness:
  "childNodes (fresh_page [(1, 1)] []) (element (ElementRotator 0 persist_config)) \<noteq> [] \<and>
   cookie_access (ElementRotator 0 persist_config) (fresh_page [(1, 1)] []) = None \<and>
   thrown (render (ElementRotator 0 persist_config) (fresh_page [(1, 1)] [])) = None \<and>
   timers (host (render (ElementRotator 0 persist_config) (fresh_page [(1, 1)] []))) =
     [Num 5000] \<and>
   cookie_persist (ElementRotator 0 nameless_config) \<and>
   cookie_name (ElementRotator 0 nameless_config) = [] \<and>
   cookie_access (ElementRotator 0 nameless_config) (fresh_page [(1, 1)] []) \<noteq> None \<and>
   thrown (render (ElementRotator 0 nameless_config) (fresh_page [(1, 1)] [])) =
     Some TypeError \<and>
   timers (host (render (ElementRotator 0 nameless_config) (fresh_page [(1, 1)] []))) = []"
proof -
  have page: "childNodes (fresh_page (p # ps) []) 0 \<noteq> []" "timers (fresh_page nodes []) = []"
    "now (fresh_page nodes []) = 12000" for p ps nodes
    by (simp_all add: fresh_page_def)
  have good: "element (ElementRotator 0 persist_config) = 0"
    "cookie_access (ElementRotator 0 persist_config) (fresh_page nodes []) = None"
    "schedule_t (ElementRotator 0 persist_config) 12000 = Num 5000" for nodes
    by (simp_all add: ElementRotator_def persist_config_def default_config_def
        cookie_access_def getSubs_def fresh_page_def page_browser_def schedule_t_def)
  have bad: "element (ElementRotator 0 nameless_config) = 0"
    "cookie_persist (ElementRotator 0 nameless_config)"
    "cookie_name (ElementRotator 0 nameless_config) = []"
    "cookie_access (ElementRotator 0 nameless_config) (fresh_page nodes []) = Some TypeError"
    for nodes
    by (simp_all add: ElementRotator_def nameless_config_def persist_config_def
        default_config_def cookie_access_def getSubs_def)
  from render_schedules_unless_thrown [of "ElementRotator 0 persist_config"
      "fresh_page [(1, 1)] []"]
    render_schedules_unless_thrown [of "ElementRotator 0 nameless_config"
      "fresh_page [(1, 1)] []"]
  show ?thesis
    by (simp add: page good bad)
qed

text \<open>
  The claim fails for a widget with persistence enabled and the empty cookie name, which
  the validator \<^verbatim>\<open>Lang.isString\<close> accepts: on a container with one element child,
  \<^verbatim>\<open>render\<close> throws in the cookie read and sets no timer.
\<close>

theorem render_nameless_counterexample:
  "childNodes (fresh_page [(1, 1)] []) (element (ElementRotator 0 nameless_config)) \<noteq> [] \<and>
   thrown (render (ElementRotator 0 nameless_config) (fresh_page [(1, 1)] [])) =
     Some TypeError \<and>
   timers (host (render (ElementRotator 0 nameless_config) (fresh_page [(1, 1)] []))) = [] \<and>
   trace (host (render (ElementRotator 0 nameless_config) (fresh_page [(1, 1)] []))) =
     [GetSub [] ''current'']"
  by (simp add: render_def initCurrent_def getSub_def getSubs_def Let_def fresh_page_def
      ElementRotator_def nameless_config_def persist_config_def default_config_def)

text \<open>
  Claim C7 against the code. The container 0 holds a single text node and no element;
  persistence is enabled. The guard of \<^verbatim>\<open>render\<close> counts the child nodes of every type,
  so \<^verbatim>\<open>render\<close> goes on: it reads the cookie, makes the container relatively positioned
  and sets a timer. When the timer fires, \<^verbatim>\<open>_advance\<close> runs over an empty element list:
  the index becomes \<open>NaN\<close>, which is written to the cookie, the animation is given
  \<^verbatim>\<open>undefined\<close> as its element, and its completion sets the next timer.
\<close>

theorem render_text_only_loops:
  "element_children (fresh_page [(1, 3)] []) 0 = [] \<and>
   thrown (render (ElementRotator 0 persist_config) (fresh_page [(1, 3)] [])) = None \<and>
   elements (widget (render (ElementRotator 0 persist_config) (fresh_page [(1, 3)] []))) = [] \<and>
   trace (host (render (ElementRotator 0 persist_config) (fresh_page [(1, 3)] []))) =
     [GetSub ''elementrotator'' ''current'',
      SetStyle (Some 0) ''position'' (Str ''relative''),
      SetTimeout (Num 5000)] \<and>
   timers (host (render (ElementRotator 0 persist_config) (fresh_page [(1, 3)] []))) =
     [Num 5000] \<and>
   current (widget (cycle
      (widget (render (ElementRotator 0 persist_config) (fresh_page [(1, 3)] [])))
      (host (render (ElementRotator 0 persist_config) (fresh_page [(1, 3)] []))))) = NaN \<and>
   trace (host (cycle
      (widget (render (ElementRotator 0 persist_config) (fresh_page [(1, 3)] [])))
      (host (render (ElementRotator 0 persist_config) (fresh_page [(1, 3)] []))))) =
     [GetSub ''elementrotator'' ''current'',
      SetStyle (Some 0) ''position'' (Str ''relative''),
      SetTimeout (Num 5000),
      SetStyle None ''visibility'' (Str ''visible''),
      SetSub ''elementrotator'' ''current'' NaN default_settings,
      Animate None 1 1,
      SetStyle None ''opacity'' (Number (Num 0)),
      SetStyle None ''visibility'' (Str ''hidden''),
      SetTimeout (Num 5000)]"
proof -
  let ?r0 = "ElementRotator 0 persist_config"
  let ?w0 = "fresh_page [(1, 3)] []"
  have rend: "render ?r0 ?w0 =
      \<lparr>widget = ?r0,
       host = ?w0\<lparr>styles := (styles ?w0)(0 := [''position'' \<mapsto> Str ''relative'']),
                  timers := [Num 5000],
                  trace := [GetSub ''elementrotator'' ''current'',
                            SetStyle (Some 0) ''position'' (Str ''relative''),
                            SetTimeout (Num 5000)]\<rparr>,
       thrown = None\<rparr>"
    by (simp add: render_def initCurrent_def getSub_def getSubs_def getStyle_def setStyle_def
        schedule_def schedule_t_def setTimeout_def strict_neq_def Let_def fresh_page_def
        ElementRotator_def persist_config_def default_config_def page_browser_def)
  show ?thesis
    unfolding rend
    by (simp add: element_children_def cycle_def timer_fires_def advance_def advanceCurrent_def setSub_def
        getSubs_def animate_def anim_completes_def setStyle_def schedule_def schedule_t_def
        setTimeout_def strict_neq_def Let_def fresh_page_def ElementRotator_def
        persist_config_def default_config_def default_settings_def page_browser_def)
qed

theorem render_text_only_loops_witness:
  "childNodes (fresh_page [(1, 3)] []) (element (ElementRotator 0 persist_config)) \<noteq> [] \<and>
   \<not> truthy (getStyle (fresh_page [(1, 3)] []) (element (ElementRotator 0 persist_config))
               ''position'') \<and>
   timers (host (render (ElementRotator 0 persist_config) (fresh_page [(1, 3)] []))) =
     [Num 5000] \<and>
   current (widget (cycle
      (widget (render (ElementRotator 0 persist_config) (fresh_page [(1, 3)] [])))
      (host (render (ElementRotator 0 persist_config) (fresh_page [(1, 3)] []))))) = NaN"
  using render_text_only_loops
  by (simp add: fresh_page_def ElementRotator_def getStyle_def)

lemma shown_not_hidden: "hidden w n \<Longrightarrow> \<not> shown w n"
  by (simp add: shown_def hidden_def)

lemma prepare_all_hidden:
  assumes "j + length (filter (\<lambda>p. snd p = 1) nodes) \<le> k"
    and "\<forall>n \<in> set els. hidden w n"
  shows "\<forall>n \<in> set (fst (prepare nodes j (Num (real k)) els w)).
           hidden (snd (prepare nodes j (Num (real k)) els w)) n"
  using assms
proof (induction nodes arbitrary: j els w)
  case Nil
  then show ?case by simp
next
  case (Cons p nodes)
  obtain n nodeType where p: "p = (n, nodeType)" by (cases p)
  show ?case
  proof (cases "nodeType = 1")
    case False
    with Cons p show ?thesis by simp
  next
    case True
    let ?w' = "setStyle (Some n) ''opacity'' (Number (Num 0))
          (setStyle (Some n) ''visibility'' (Str ''hidden'')
          (setStyle (Some n) ''zIndex'' (Number (Num (real j)))
          (setStyle (Some n) ''top'' (Number (Num 0))
          (setStyle (Some n) ''left'' (Number (Num 0))
          (setStyle (Some n) ''position'' (Str ''absolute'') w)))))"
    have jk: "j \<noteq> k" "Suc j + length (filter (\<lambda>p. snd p = 1) nodes) \<le> k"
      using Cons.prems(1) p True by simp_all
    have "hidden ?w' m" if "hidden w m \<or> m = n" for m
      using that by (auto simp: hidden_def setStyle_styles)
    then have "\<forall>m \<in> set (els @ [n]). hidden ?w' m"
      using Cons.prems(2) by auto
    then have "\<forall>m \<in> set (fst (prepare nodes (Suc j) (Num (real k)) (els @ [n]) ?w')).
           hidden (snd (prepare nodes (Suc j) (Num (real k)) (els @ [n]) ?w')) m"
      using jk(2) by (intro Cons.IH)
    then show ?thesis
      using p True jk(1) by simp
  qed
qed

text \<open>
  Claim C10, as the code has it. Let persistence be enabled, let the stored index be a
  whole number \<open>k\<close> that is at least the number of element children, and let the
  container have at least one child node. Then \<^verbatim>\<open>render\<close> on a newly constructed widget
  takes \<open>k\<close> unchanged as the current index, and the preparation loop shows no element:
  every element child ends hidden with opacity 0.
\<close>

theorem render_stored_index_too_large:
  assumes "cfg_cookie_persist cfg = Some True" and "r = ElementRotator ctr cfg"
    and "fst (getSub (cookie_name r) ''current'' w) = Inr (Some (Num (real k)))"
    and "length (element_children w ctr) \<le> k"
    and "childNodes w ctr \<noteq> []"
  shows "thrown (render r w) = None \<and>
         current (widget (render r w)) = Num (real k) \<and>
         elements (widget (render r w)) = element_children w ctr \<and>
         list_all (hidden (host (render r w))) (elements (widget (render r w))) \<and>
         filter (shown (host (render r w))) (elements (widget (render r w))) = []"
proof -
  have r: "element r = ctr" "cookie_persist r" "current r = Num 0"
    using assms(1,2) by (simp_all add: ElementRotator_def)
  have "current (widget (initCurrent r w)) =
        (if Num (real k) \<noteq> Num 0 \<and> Num (real k) \<noteq> NaN then Num (real k) else current r)"
    using r(2) assms(3) by (rule initCurrent_read(1))
  then have cur: "current (widget (initCurrent r w)) = Num (real k)"
    using r(3) by (cases "k = 0") simp_all
  have returns: "thrown (initCurrent r w) = None"
    using r(2) assms(3) by (rule initCurrent_read(2))
  from assms(5) r(1) have "childNodes w (element r) \<noteq> []" by simp
  from this returns obtain w2 where
    rend: "render r w =
      \<lparr>widget = (widget (initCurrent r w))
         \<lparr>elements := fst (prepare (childNodes w (element r)) 0
                             (current (widget (initCurrent r w))) [] w2)\<rparr>,
       host = schedule
         ((widget (initCurrent r w))
            \<lparr>elements := fst (prepare (childNodes w (element r)) 0
                                (current (widget (initCurrent r w))) [] w2)\<rparr>)
         (snd (prepare (childNodes w (element r)) 0
                 (current (widget (initCurrent r w))) [] w2)),
       thrown = None\<rparr>"
    by (rule render_nonempty)
  let ?p = "prepare (childNodes w ctr) 0 (Num (real k)) [] w2"
  have els: "fst ?p = element_children w ctr"
    by (simp add: prepare_elements element_children_def)
  have "0 + length (filter (\<lambda>p. snd p = 1) (childNodes w ctr)) \<le> k"
    using assms(4) by (simp add: element_children_def)
  then have "\<forall>n \<in> set (fst ?p). hidden (snd ?p) n"
    by (rule prepare_all_hidden) simp
  then have hid: "\<forall>n \<in> set (fst ?p). hidden (schedule r' (snd ?p)) n" for r'
    by (simp add: hidden_def schedule_frame)
  then have "\<forall>n \<in> set (fst ?p). \<not> shown (schedule r' (snd ?p)) n" for r'
    using shown_not_hidden by blast
  then have "filter (shown (schedule r' (snd ?p))) (fst ?p) = []" for r'
    by (simp add: filter_empty_conv)
  with hid els show ?thesis
    by (simp add: rend r(1) cur list_all_iff)
qed

theorem render_stored_index_too_large_witness:
  "cfg_cookie_persist persist_config = Some True \<and>
   fst (getSub (cookie_name (ElementRotator 0 persist_config)) ''current''
          (fresh_page [(1, 1), (2, 3), (3, 1)] [stored_index 2])) = Inr (Some (Num (real 2))) \<and>
   length (element_children (fresh_page [(1, 1), (2, 3), (3, 1)] [stored_index 2]) 0) \<le> 2 \<and>
   childNodes (fresh_page [(1, 1), (2, 3), (3, 1)] [stored_index 2]) 0 \<noteq> [] \<and>
   current (widget (render (ElementRotator 0 persist_config)
                      (fresh_page [(1, 1), (2, 3), (3, 1)] [stored_index 2]))) = Num 2 \<and>
   elements (widget (render (ElementRotator 0 persist_config)
                       (fresh_page [(1, 1), (2, 3), (3, 1)] [stored_index 2]))) = [1, 3] \<and>
   list_all (hidden (host (render (ElementRotator 0 persist_config)
                             (fresh_page [(1, 1), (2, 3), (3, 1)] [stored_index 2]))))
     (elements (widget (render (ElementRotator 0 persist_config)
                          (fresh_page [(1, 1), (2, 3), (3, 1)] [stored_index 2]))))"
proof -
  have hyps: "cfg_cookie_persist persist_config = Some True"
    "fst (getSub (cookie_name (ElementRotator 0 persist_config)) ''current''
          (fresh_page [(1, 1), (2, 3), (3, 1)] [stored_index 2])) = Inr (Some (Num (real 2)))"
    "length (element_children (fresh_page [(1, 1), (2, 3), (3, 1)] [stored_index 2]) 0) \<le> 2"
    "childNodes (fresh_page [(1, 1), (2, 3), (3, 1)] [stored_index 2]) 0 \<noteq> []"
    by (simp_all add: persist_config_def ElementRotator_def default_config_def getSub_def
        getSubs_def fresh_page_def element_children_def stored_index_def page_browser_def
        store_def page_shows_def default_settings_def path_covers_def)
  have els: "element_children (fresh_page [(1, 1), (2, 3), (3, 1)] [stored_index 2]) 0 = [1, 3]"
    by (simp add: fresh_page_def element_children_def)
  from render_stored_index_too_large [OF hyps(1) refl hyps(2,3,4)] show ?thesis
    unfolding els using hyps by auto
qed

text \<open>
  The claim fails for a container without child nodes: \<^verbatim>\<open>render\<close> returns before
  \<^verbatim>\<open>_initCurrent\<close> is called, so a stored index of 1 is not taken and the current index
  stays 0.
\<close>

theorem render_stored_index_counterexample:
  "cookie_persist (ElementRotator 0 persist_config) \<and>
   fst (getSub (cookie_name (ElementRotator 0 persist_config)) ''current''
          (fresh_page [] [stored_index 1])) = Inr (Some (Num 1)) \<and>
   length (element_children (fresh_page [] [stored_index 1]) 0) \<le> 1 \<and>
   current (widget (render (ElementRotator 0 persist_config) (fresh_page [] [stored_index 1]))) =
     Num 0"
  by (simp add: render_def fresh_page_def element_children_def ElementRotator_def
      persist_config_def default_config_def getSub_def getSubs_def stored_index_def
      page_browser_def store_def page_shows_def default_settings_def path_covers_def)

section \<open>Transitions\<close>

lemma js_index_nat: "c < length xs \<Longrightarrow> js_index xs (Num (real c)) = Some (xs ! c)"
  by simp

lemma cookie_access_frame:
  "cookie_access r (setStyle el p v w) = cookie_access r w"
  "cookie_access r (w\<lparr>timers := ts\<rparr>) = cookie_access r w"
  by (simp_all add: cookie_access_def getSubs_def setStyle_frame)

lemma advanceCurrent_frame:
  "styles (host (advanceCurrent r w)) = styles w"
  "running (host (advanceCurrent r w)) = running w"
  "timers (host (advanceCurrent r w)) = timers w"
  "now (host (advanceCurrent r w)) = now w"
  "browser (host (advanceCurrent r w)) = browser w"
  by (simp_all add: advanceCurrent_host setSub_frame)

lemma advanceCurrent_config:
  "fade_duration (widget (advanceCurrent r w)) = fade_duration r"
  "show_duration (widget (advanceCurrent r w)) = show_duration r"
  "clock_sync (widget (advanceCurrent r w)) = clock_sync r"
  "cookie_persist (widget (advanceCurrent r w)) = cookie_persist r"
  "cookie_name (widget (advanceCurrent r w)) = cookie_name r"
  "cookie_settings (widget (advanceCurrent r w)) = cookie_settings r"
  by (simp_all add: advanceCurrent_widget)

lemma advanceCurrent_trace:
  "trace (host (advanceCurrent r w)) =
     trace w @ (if cookie_persist r
                then [SetSub (cookie_name r) ''current'' (current (widget (advanceCurrent r w)))
                        (cookie_settings r)]
                else [])"
  by (simp add: advanceCurrent_host setSub_frame)

lemma advanceCurrent_index:
  "current (widget (advanceCurrent r w)) =
     js_rem (js_add (current r) (Num 1)) (Num (real (length (elements r))))"
  by (simp add: advanceCurrent_widget)

lemma animate_frame:
  "styles (animate el to d h w) = styles w"
  "timers (animate el to d h w) = timers w"
  "now (animate el to d h w) = now w"
  "cookie_writes (animate el to d h w) = cookie_writes w"
  "browser (animate el to d h w) = browser w"
  "trace (animate el to d h w) = trace w @ [Animate el to d]"
  by (simp_all add: animate_def)

lemma animate_running:
  "running (animate el to d h w) =
     running w @ [\<lparr>tw_el = el,
                    tw_from = (case el of None \<Rightarrow> None | Some n \<Rightarrow> styles w n ''opacity''),
                    tw_to = to, tw_duration = d, tw_onComplete = h\<rparr>]"
  by (cases el) (simp_all add: animate_def getStyle_def)

text \<open>
  \<^verbatim>\<open>_advance\<close> written out: the branch is chosen by \<open>idxNext\<close>, and the animation is
  started unless \<^verbatim>\<open>_advanceCurrent\<close> has thrown.
\<close>

lemma advance_unfold:
  assumes "idxNext = js_rem (js_add (current r) (Num 1)) (Num (real (length (elements r))))"
    and "cur = js_index (elements r) (current r)"
    and "nxt = js_index (elements r) idxNext"
    and "a1 = advanceCurrent r (setStyle nxt ''visibility'' (Str ''visible'') w)"
    and "a0 = advanceCurrent r
                (setStyle nxt ''opacity'' (Number (Num 1))
                  (setStyle nxt ''visibility'' (Str ''visible'') w))"
  shows "advance r w =
     (if idxNext \<noteq> Num 0 then
        (if cookie_access r w \<noteq> None then a1
         else a1\<lparr>host := animate nxt 1 (fade_duration r) (FadeUpComplete cur) (host a1)\<rparr>)
      else
        (if cookie_access r w \<noteq> None then a0
         else a0\<lparr>host := animate cur 0 (fade_duration r) (FadeDownComplete cur) (host a0)\<rparr>))"
proof -
  have ne: "strict_neq (Prim (Number x) :: rotator operand) (Prim (Number (Num 0))) =
        (x \<noteq> Num 0)" for x
    by (auto simp: strict_neq_def)
  have th: "thrown (advanceCurrent r (setStyle el p v w)) = cookie_access r w"
    "thrown (advanceCurrent r (setStyle el p v (setStyle el' p' v' w))) = cookie_access r w"
    for el p v el' p' v'
    by (simp_all add: advanceCurrent_thrown cookie_access_frame)
  show ?thesis
    unfolding advance_def Let_def assms
    by (cases "cookie_access r w") (simp_all add: th ne)
qed

text \<open>\<^verbatim>\<open>_advance\<close> for a current index \<open>c\<close> within the element list.\<close>

lemma advance_in_range:
  assumes "c < length (elements r)" and "current r = Num (real c)"
    and "a1 = advanceCurrent r
                (setStyle (Some (elements r ! Suc c)) ''visibility'' (Str ''visible'') w)"
    and "a0 = advanceCurrent r
                (setStyle (Some (elements r ! 0)) ''opacity'' (Number (Num 1))
                  (setStyle (Some (elements r ! 0)) ''visibility'' (Str ''visible'') w))"
  shows "advance r w =
     (if Suc c < length (elements r) then
        (if cookie_access r w \<noteq> None then a1
         else a1\<lparr>host := animate (Some (elements r ! Suc c)) 1 (fade_duration r)
                           (FadeUpComplete (Some (elements r ! c))) (host a1)\<rparr>)
      else
        (if cookie_access r w \<noteq> None then a0
         else a0\<lparr>host := animate (Some (elements r ! c)) 0 (fade_duration r)
                           (FadeDownComplete (Some (elements r ! c))) (host a0)\<rparr>))"
proof -
  let ?N = "length (elements r)"
  have pos: "0 < ?N" using assms(1) by (cases "elements r") simp_all
  have "js_add (current r) (Num 1) = Num (real (c + 1))"
    using assms(2) by simp
  then have idx: "js_rem (js_add (current r) (Num 1)) (Num (real ?N)) =
      Num (real ((c + 1) mod ?N))"
    using js_rem_nat [OF pos, of "c + 1"] by simp
  have cur: "js_index (elements r) (current r) = Some (elements r ! c)"
    using assms(1,2) by (simp only: js_index_nat)
  show ?thesis
  proof (cases "Suc c < ?N")
    case True
    then have m: "(c + 1) mod ?N = Suc c" by simp
    have nxt: "js_index (elements r) (Num (real (Suc c))) = Some (elements r ! Suc c)"
      using True by (rule js_index_nat)
    have ne: "Num (real (Suc c)) \<noteq> Num 0" by simp
    show ?thesis
      using advance_unfold [OF refl refl refl refl refl, of r w] True ne
      unfolding idx cur m nxt assms(3,4) by simp
  next
    case False
    then have "Suc c = ?N" using assms(1) by simp
    then have m: "(c + 1) mod ?N = 0" by simp
    have nxt: "js_index (elements r) (Num (real 0)) = Some (elements r ! 0)"
      using pos by (rule js_index_nat)
    show ?thesis
      using advance_unfold [OF refl refl refl refl refl, of r w] False
      unfolding idx cur m nxt assms(3,4) by simp
  qed
qed

lemma idle_at_iff:
  "idle_at c els w \<longleftrightarrow>
     c < length els \<and>
     (\<forall>j < length els. if j = c then shown w (els ! j) else hidden w (els ! j))"
  by (auto simp: idle_at_def list_all_iff)

lemma idle_at_moved:
  assumes "distinct els" and "c < length els" and "c' < length els" and "c \<noteq> c'"
    and "idle_at c els w"
    and "styles w' =
     ((styles w)
        (els ! c' :=
           (styles w (els ! c'))
             (''visibility'' \<mapsto> Str ''visible'', ''opacity'' \<mapsto> Number (Num 1))))
        (els ! c :=
           (((styles w)
               (els ! c' :=
                  (styles w (els ! c'))
                    (''visibility'' \<mapsto> Str ''visible'', ''opacity'' \<mapsto> Number (Num 1))))
              (els ! c))
             (''opacity'' \<mapsto> Number (Num 0), ''visibility'' \<mapsto> Str ''hidden''))"
  shows "idle_at c' els w'"
proof -
  have ne: "els ! c \<noteq> els ! c'"
    using assms(1-4) by (simp add: nth_eq_iff_index_eq)
  have "if j = c' then shown w' (els ! j) else hidden w' (els ! j)" if j: "j < length els" for j
  proof (cases "j = c'")
    case True
    then show ?thesis using ne by (simp add: shown_def assms(6))
  next
    case False
    show ?thesis
    proof (cases "j = c")
      case True
      then show ?thesis using False by (simp add: hidden_def assms(6))
    next
      case other: False
      have "els ! j \<noteq> els ! c" "els ! j \<noteq> els ! c'"
        using assms(1-3) j False other by (simp_all add: nth_eq_iff_index_eq)
      moreover have "hidden w (els ! j)"
        using assms(5) j other by (simp add: idle_at_iff)
      ultimately show ?thesis using False by (simp add: hidden_def assms(6))
    qed
  qed
  then show ?thesis using assms(3) by (simp add: idle_at_iff)
qed

lemma idle_at_only_one:
  assumes "idle_at c els w"
  shows "filter (shown w) els = [els ! c]"
proof -
  have c: "c < length els" and at: "shown w (els ! c)"
    and rest: "\<And>j. j < length els \<Longrightarrow> j \<noteq> c \<Longrightarrow> hidden w (els ! j)"
    using assms by (auto simp: idle_at_iff split: if_splits)
  have "\<not> shown w x" if "x \<in> set (take c els)" for x
  proof -
    from that obtain i where "i < length (take c els)" "take c els ! i = x"
      by (auto simp: in_set_conv_nth)
    then have "i < length els" "i \<noteq> c" "els ! i = x" using c by simp_all
    then show ?thesis using rest shown_not_hidden by blast
  qed
  then have before: "filter (shown w) (take c els) = []"
    by (simp add: filter_empty_conv)
  have "\<not> shown w x" if "x \<in> set (drop (Suc c) els)" for x
  proof -
    from that obtain i where "i < length (drop (Suc c) els)" "drop (Suc c) els ! i = x"
      by (auto simp: in_set_conv_nth)
    then have "Suc c + i < length els" "Suc c + i \<noteq> c" "els ! (Suc c + i) = x"
      using c by simp_all
    then show ?thesis using rest shown_not_hidden by blast
  qed
  then have after: "filter (shown w) (drop (Suc c) els) = []"
    by (simp add: filter_empty_conv)
  have "els = take c els @ els ! c # drop (Suc c) els"
    using c by (rule id_take_nth_drop)
  then have "filter (shown w) els =
      filter (shown w) (take c els) @ filter (shown w) (els ! c # drop (Suc c) els)"
    by (metis filter_append)
  then show ?thesis using before after at by simp
qed

lemma idle_at_others_hidden:
  assumes "idle_at c els w" and "n \<in> set els" and "n \<noteq> els ! c"
  shows "hidden w n"
proof -
  from assms(2) obtain j where "j < length els" "els ! j = n"
    by (auto simp: in_set_conv_nth)
  then show ?thesis using assms(1,3) by (auto simp: idle_at_iff split: if_splits)
qed

lemma advance_widget:
  "widget (advance r w) =
     r\<lparr>current := js_rem (js_add (current r) (Num 1)) (Num (real (length (elements r))))\<rparr>"
  by (simp add: advance_unfold [OF refl refl refl refl refl] advanceCurrent_widget)

lemma advance_thrown:
  "thrown (advance r w) =
     cookie_access r w"
  by (simp add: advance_unfold [OF refl refl refl refl refl] advanceCurrent_thrown
      cookie_access_frame)

lemma advance_thrown_running:
  assumes "cookie_access r w \<noteq> None"
  shows "running (host (advance r w)) = running w"
  using assms
  by (simp add: advance_unfold [OF refl refl refl refl refl] advanceCurrent_frame
      setStyle_frame)

lemma transition_parts:
  "widget (transition r w) = widget (advance r w)"
  "thrown (transition r w) = thrown (advance r w)"
  "host (transition r w) = anim_completes (widget (advance r w)) (host (advance r w))"
  by (simp_all add: transition_def Let_def)

lemma anim_completes_idle: "running w = [] \<Longrightarrow> anim_completes r w = w"
  by (simp add: anim_completes_def)

text \<open>The styles after a whole transition, for the two branches of \<^verbatim>\<open>_advance\<close>.\<close>

lemma transition_fade_up:
  assumes "Suc c < length (elements r)" and "current r = Num (real c)" and "running w = []"
    and "cookie_access r w = None"
  shows "styles (host (transition r w)) =
     ((styles w)
        (elements r ! Suc c :=
           (styles w (elements r ! Suc c))
             (''visibility'' \<mapsto> Str ''visible'', ''opacity'' \<mapsto> Number (Num 1))))
        (elements r ! c :=
           (((styles w)
               (elements r ! Suc c :=
                  (styles w (elements r ! Suc c))
                    (''visibility'' \<mapsto> Str ''visible'', ''opacity'' \<mapsto> Number (Num 1))))
              (elements r ! c))
             (''opacity'' \<mapsto> Number (Num 0), ''visibility'' \<mapsto> Str ''hidden''))"
    and "running (host (transition r w)) = []"
proof -
  have c: "c < length (elements r)" using assms(1) by simp
  note adv = advance_in_range [OF c assms(2) refl refl, of w]
  show "styles (host (transition r w)) =
     ((styles w)
        (elements r ! Suc c :=
           (styles w (elements r ! Suc c))
             (''visibility'' \<mapsto> Str ''visible'', ''opacity'' \<mapsto> Number (Num 1))))
        (elements r ! c :=
           (((styles w)
               (elements r ! Suc c :=
                  (styles w (elements r ! Suc c))
                    (''visibility'' \<mapsto> Str ''visible'', ''opacity'' \<mapsto> Number (Num 1))))
              (elements r ! c))
             (''opacity'' \<mapsto> Number (Num 0), ''visibility'' \<mapsto> Str ''hidden''))"
    using assms(1,3,4)
    by (simp add: transition_parts adv anim_completes_def
        animate_running animate_frame advanceCurrent_frame setStyle_frame setStyle_styles
        schedule_frame)
  show "running (host (transition r w)) = []"
    using assms(1,3,4)
    by (simp add: transition_parts adv anim_completes_def
        animate_running animate_frame advanceCurrent_frame setStyle_frame setStyle_styles
        schedule_frame)
qed

lemma transition_fade_down:
  assumes "Suc c = length (elements r)" and "current r = Num (real c)" and "running w = []"
    and "cookie_access r w = None"
  shows "styles (host (transition r w)) =
     ((styles w)
        (elements r ! 0 :=
           (styles w (elements r ! 0))
             (''visibility'' \<mapsto> Str ''visible'', ''opacity'' \<mapsto> Number (Num 1))))
        (elements r ! c :=
           (((styles w)
               (elements r ! 0 :=
                  (styles w (elements r ! 0))
                    (''visibility'' \<mapsto> Str ''visible'', ''opacity'' \<mapsto> Number (Num 1))))
              (elements r ! c))
             (''opacity'' \<mapsto> Number (Num 0), ''visibility'' \<mapsto> Str ''hidden''))"
    and "running (host (transition r w)) = []"
proof -
  have c: "c < length (elements r)" and last: "\<not> Suc c < length (elements r)"
    using assms(1) by simp_all
  note adv = advance_in_range [OF c assms(2) refl refl, of w]
  show "styles (host (transition r w)) =
     ((styles w)
        (elements r ! 0 :=
           (styles w (elements r ! 0))
             (''visibility'' \<mapsto> Str ''visible'', ''opacity'' \<mapsto> Number (Num 1))))
        (elements r ! c :=
           (((styles w)
               (elements r ! 0 :=
                  (styles w (elements r ! 0))
                    (''visibility'' \<mapsto> Str ''visible'', ''opacity'' \<mapsto> Number (Num 1))))
              (elements r ! c))
             (''opacity'' \<mapsto> Number (Num 0), ''visibility'' \<mapsto> Str ''hidden''))"
    using assms(3,4) last
    by (simp add: transition_parts adv anim_completes_def
        animate_running animate_frame advanceCurrent_frame setStyle_frame setStyle_styles
        schedule_frame)
  show "running (host (transition r w)) = []"
    using assms(3,4) last
    by (simp add: transition_parts adv anim_completes_def
        animate_running animate_frame advanceCurrent_frame setStyle_frame setStyle_styles
        schedule_frame)
qed

lemma transition_index:
  assumes "c < length (elements r)" and "current r = Num (real c)"
  shows "current (widget (transition r w)) = Num (real ((c + 1) mod length (elements r)))"
    and "elements (widget (transition r w)) = elements r"
proof -
  have ne: "elements r \<noteq> []" using assms(1) by auto
  have "widget (transition r w) = widget (advanceCurrent r w)"
    by (simp add: transition_parts advance_widget advanceCurrent_widget)
  then show "current (widget (transition r w)) = Num (real ((c + 1) mod length (elements r)))"
    and "elements (widget (transition r w)) = elements r"
    using advanceCurrent_current [OF ne assms(2), of w]
    by (simp_all add: advanceCurrent_elements)
qed

text \<open>
  Claim C1. Let the widget have at least two elements, all different nodes, and be
  Idle with its current index \<open>c\<close>: no animation is in flight, the element at \<open>c\<close> is
  visible with opacity 1 and every other element is hidden with opacity 0. A transition
  sets the current index to \<open>(c + 1) mod N\<close>. When the cookie write throws nothing (there
  is none without persistence), the fade animation is started and, once it has
  completed, by the handler of the non-wrap branch (\<open>c + 1 < N\<close>) or of the wrap branch
  (\<open>c + 1 = N\<close>), the widget is Idle again at the index \<open>(c + 1) mod N\<close>: exactly that
  element is visible with opacity 1, and every other element is hidden with opacity 0.
  When the cookie write throws, it does so before the animation is started, so that no
  animation is in flight and none completes.
\<close>

theorem transition_restores_idle:
  assumes "2 \<le> length (elements r)" and "distinct (elements r)"
    and "current r = Num (real c)" and "idle_at c (elements r) w" and "running w = []"
  shows "current (widget (transition r w)) = Num (real ((c + 1) mod length (elements r))) \<and>
         elements (widget (transition r w)) = elements r \<and>
         running (host (transition r w)) = [] \<and>
         thrown (transition r w) =
           cookie_access r w \<and>
         (cookie_access r w \<noteq> None \<longrightarrow> running (host (advance r w)) = []) \<and>
         (cookie_access r w = None \<longrightarrow>
            map tw_onComplete (running (host (advance r w))) =
              [if Suc c < length (elements r) then FadeUpComplete (Some (elements r ! c))
               else FadeDownComplete (Some (elements r ! c))] \<and>
            idle_at ((c + 1) mod length (elements r)) (elements r) (host (transition r w)) \<and>
            filter (shown (host (transition r w))) (elements r) =
              [elements r ! ((c + 1) mod length (elements r))] \<and>
            (\<forall>n \<in> set (elements r).
               n \<noteq> elements r ! ((c + 1) mod length (elements r)) \<longrightarrow>
               hidden (host (transition r w)) n))"
proof -
  let ?N = "length (elements r)"
  let ?c' = "(c + 1) mod ?N"
  have c: "c < ?N" using assms(4) by (simp add: idle_at_iff)
  note adv = advance_in_range [OF c assms(3) refl refl, of w]
  have thr: "thrown (transition r w) =
           cookie_access r w"
    by (simp add: transition_parts advance_thrown)
  have stuck: "running (host (advance r w)) = []" "running (host (transition r w)) = []"
    if bad: "cookie_access r w \<noteq> None"
  proof -
    show a: "running (host (advance r w)) = []"
      using advance_thrown_running [OF bad] assms(5) by simp
    show "running (host (transition r w)) = []"
      using a by (simp add: transition_parts anim_completes_idle)
  qed
  have completed: "map tw_onComplete (running (host (advance r w))) =
              [if Suc c < ?N then FadeUpComplete (Some (elements r ! c))
               else FadeDownComplete (Some (elements r ! c))] \<and>
            running (host (transition r w)) = [] \<and>
            idle_at ?c' (elements r) (host (transition r w)) \<and>
            filter (shown (host (transition r w))) (elements r) = [elements r ! ?c'] \<and>
            (\<forall>n \<in> set (elements r).
               n \<noteq> elements r ! ?c' \<longrightarrow> hidden (host (transition r w)) n)"
    if ok: "cookie_access r w = None"
  proof -
    have handler: "map tw_onComplete (running (host (advance r w))) =
           [if Suc c < ?N then FadeUpComplete (Some (elements r ! c))
            else FadeDownComplete (Some (elements r ! c))]"
      using assms(5) ok
      by (simp add: adv animate_running advanceCurrent_frame setStyle_frame)
    have idle: "idle_at ?c' (elements r) (host (transition r w))"
    proof (cases "Suc c < ?N")
      case True
      then have m: "?c' = Suc c" by simp
      show ?thesis
        unfolding m
        using assms(2) c True _ assms(4) transition_fade_up(1) [OF True assms(3,5) ok]
        by (rule idle_at_moved) simp
    next
      case False
      then have last: "Suc c = ?N" using c by simp
      then have m: "?c' = 0" by simp
      have pos: "0 < ?N" and ne: "c \<noteq> 0" using assms(1) last by arith+
      show ?thesis
        unfolding m
        using assms(2) c pos ne assms(4) transition_fade_down(1) [OF last assms(3,5) ok]
        by (rule idle_at_moved)
    qed
    have run: "running (host (transition r w)) = []"
    proof (cases "Suc c < ?N")
      case True
      then show ?thesis using assms(3,5) ok by (rule transition_fade_up(2))
    next
      case False
      then have "Suc c = ?N" using c by simp
      then show ?thesis using assms(3,5) ok by (rule transition_fade_down(2))
    qed
    have "filter (shown (host (transition r w))) (elements r) = [elements r ! ?c']"
      using idle by (rule idle_at_only_one)
    moreover have "\<forall>n \<in> set (elements r).
        n \<noteq> elements r ! ?c' \<longrightarrow> hidden (host (transition r w)) n"
      using idle idle_at_others_hidden by blast
    ultimately show ?thesis using handler idle run by simp
  qed
  have "running (host (transition r w)) = []"
    using stuck(2) completed by (cases "cookie_access r w \<noteq> None") blast+
  then show ?thesis
    using transition_index [OF c assms(3), of w] thr stuck(1) completed by simp
qed

theorem transition_restores_idle_witness:
  "2 \<le> length (elements (rotator3 0)) \<and> distinct (elements (rotator3 0)) \<and>
   current (rotator3 0) = Num (real 0) \<and> idle_at 0 (elements (rotator3 0)) (idle_page 1) \<and>
   running (idle_page 1) = [] \<and>
   cookie_access (rotator3 0) (idle_page 1) = None \<and>
   map tw_onComplete (running (host (advance (rotator3 0) (idle_page 1)))) =
     [FadeUpComplete (Some 1)] \<and>
   filter (shown (host (transition (rotator3 0) (idle_page 1)))) (elements (rotator3 0)) = [2] \<and>
   current (rotator3 2) = Num (real 2) \<and> idle_at 2 (elements (rotator3 2)) (idle_page 3) \<and>
   running (idle_page 3) = [] \<and>
   map tw_onComplete (running (host (advance (rotator3 2) (idle_page 3)))) =
     [FadeDownComplete (Some 3)] \<and>
   filter (shown (host (transition (rotator3 2) (idle_page 3)))) (elements (rotator3 2)) = [1] \<and>
   cookie_access ((rotator3 0)\<lparr>cookie_persist := True, cookie_name := []\<rparr>) (idle_page 1) \<noteq>
     None \<and>
   thrown (transition ((rotator3 0)\<lparr>cookie_persist := True, cookie_name := []\<rparr>)
             (idle_page 1)) = Some TypeError \<and>
   running (host (advance ((rotator3 0)\<lparr>cookie_persist := True, cookie_name := []\<rparr>)
                    (idle_page 1))) = []"
proof -
  let ?bad = "(rotator3 0)\<lparr>cookie_persist := True, cookie_name := []\<rparr>"
  have els: "elements (rotator3 c) = [1, 2, 3]" "current (rotator3 c) = Num (real c)"
    "cookie_access (rotator3 c) v = None" for c v
    by (simp_all add: rotator3_def ElementRotator_def default_config_def cookie_access_def)
  have bad: "elements ?bad = [1, 2, 3]" "current ?bad = Num (real 0)"
    "cookie_access ?bad v = Some TypeError" for v
    by (simp_all add: rotator3_def cookie_access_def getSubs_def)
  have shape: "2 \<le> length (elements (rotator3 c))" "distinct (elements (rotator3 c))" for c
    by (simp_all add: els)
  have bad_shape: "2 \<le> length (elements ?bad)" "distinct (elements ?bad)"
    by (simp_all add: bad)
  have idle: "idle_at 0 (elements (rotator3 0)) (idle_page 1)"
    "idle_at 2 (elements (rotator3 2)) (idle_page 3)"
    "idle_at 0 (elements ?bad) (idle_page 1)"
    by (simp_all add: els bad idle_at_def idle_page_def shown_def hidden_def shown_style_def
        hidden_style_def)
  have rest: "running (idle_page v) = []" for v
    by (simp add: idle_page_def)
  from transition_restores_idle [OF shape els(2) idle(1) rest]
    transition_restores_idle [OF shape els(2) idle(2) rest]
    transition_restores_idle [OF bad_shape bad(2) idle(3) rest]
  show ?thesis
    using shape els(2) idle rest by (simp add: els(1,3) bad(3))
qed



lemma onComplete_cookies:
  "cookie_writes (onComplete h r w) = cookie_writes w"
  "filter is_SetSub (trace (onComplete h r w)) = filter is_SetSub (trace w)"
proof -
  obtain cur where "h = FadeUpComplete cur \<or> h = FadeDownComplete cur"
    by (cases h) auto
  then show "cookie_writes (onComplete h r w) = cookie_writes w"
    and "filter is_SetSub (trace (onComplete h r w)) = filter is_SetSub (trace w)"
    by (cases cur; auto simp: schedule_frame setStyle_def)+
qed

lemma anim_completes_cookies:
  "cookie_writes (anim_completes r w) = cookie_writes w"
  "filter is_SetSub (trace (anim_completes r w)) = filter is_SetSub (trace w)"
  by (simp_all add: anim_completes_def onComplete_cookies split: list.splits option.splits)

text \<open>
  Claim C6. In both branches of \<^verbatim>\<open>_advance\<close> the current index is set to the index
  \<open>idxNext\<close> of the incoming element, and with persistence enabled that index is
  written to the cookie, when the transition is initiated: the write follows the style
  writes on the incoming element and precedes the start of the animation (which is not
  reached when the write throws). The cookie assigned holds
  \<open>idxNext\<close> as its \<open>current\<close> sub-value, and a page that is shown this cookie reads
  \<open>idxNext\<close> back. The completion of the animation neither assigns a cookie nor calls
  the cookie write (its two handlers write styles and call the scheduler). So during
  the fade the current index, and the stored one, is the index of the element that the
  transition made visible.
\<close>

theorem advance_index_at_initiation:
  assumes "idxNext = js_rem (js_add (current r) (Num 1)) (Num (real (length (elements r))))"
    and "cur = js_index (elements r) (current r)"
    and "nxt = js_index (elements r) idxNext"
  shows "current (widget (advance r w)) = idxNext \<and>
         js_index (elements (widget (advance r w))) (current (widget (advance r w))) = nxt \<and>
         trace (host (advance r w)) =
           trace w @
           [SetStyle nxt ''visibility'' (Str ''visible'')] @
           (if idxNext = Num 0 then [SetStyle nxt ''opacity'' (Number (Num 1))] else []) @
           (if cookie_persist r
            then [SetSub (cookie_name r) ''current'' idxNext (cookie_settings r)] else []) @
           (if cookie_access r w \<noteq> None then []
            else [Animate (if idxNext = Num 0 then cur else nxt)
                    (if idxNext = Num 0 then 0 else 1) (fade_duration r)]) \<and>
         (cookie_persist r \<and> cookie_access r w = None \<longrightarrow>
            cookie_writes (host (advance r w)) =
              cookie_writes w @
              [\<lparr>cw_name = cookie_name r,
                cw_hash = (case getSubs (cookie_name r) w of
                             Inr (Some h) \<Rightarrow> h | _ \<Rightarrow> Map.empty)(''current'' \<mapsto> idxNext),
                cw_options = cookie_settings r\<rparr>] \<and>
            (shows_last_write (host (advance r w)) \<longrightarrow>
               fst (getSub (cookie_name r) ''current'' (host (advance r w))) =
                 Inr (Some idxNext))) \<and>
         cookie_writes (anim_completes (widget (advance r w)) (host (advance r w))) =
           cookie_writes (host (advance r w)) \<and>
         filter is_SetSub (trace (anim_completes (widget (advance r w)) (host (advance r w)))) =
           filter is_SetSub (trace (host (advance r w)))"
proof -
  note adv = advance_unfold [OF assms refl refl, of w]
  have idx: "current (widget (advanceCurrent r v)) = idxNext" for v
    by (simp add: advanceCurrent_index assms(1))
  have "current (widget (advance r w)) = idxNext"
    by (simp add: advance_widget assms(1))
  moreover have "elements (widget (advance r w)) = elements r"
    by (simp add: advance_widget)
  moreover have "trace (host (advance r w)) =
           trace w @
           [SetStyle nxt ''visibility'' (Str ''visible'')] @
           (if idxNext = Num 0 then [SetStyle nxt ''opacity'' (Number (Num 1))] else []) @
           (if cookie_persist r
            then [SetSub (cookie_name r) ''current'' idxNext (cookie_settings r)] else []) @
           (if cookie_access r w \<noteq> None then []
            else [Animate (if idxNext = Num 0 then cur else nxt)
                    (if idxNext = Num 0 then 0 else 1) (fade_duration r)])"
    by (simp add: adv animate_frame advanceCurrent_trace idx setStyle_trace)
  moreover have "cookie_writes (host (advance r w)) =
              cookie_writes w @
              [\<lparr>cw_name = cookie_name r,
                cw_hash = (case getSubs (cookie_name r) w of
                             Inr (Some h) \<Rightarrow> h | _ \<Rightarrow> Map.empty)(''current'' \<mapsto> idxNext),
                cw_options = cookie_settings r\<rparr>] \<and>
            (shows_last_write (host (advance r w)) \<longrightarrow>
               fst (getSub (cookie_name r) ''current'' (host (advance r w))) =
                 Inr (Some idxNext))"
    if persist: "cookie_persist r" and access: "cookie_access r w = None"
  proof -
    let ?c = "\<lparr>cw_name = cookie_name r,
                cw_hash = (case getSubs (cookie_name r) w of
                             Inr (Some h) \<Rightarrow> h | _ \<Rightarrow> Map.empty)(''current'' \<mapsto> idxNext),
                cw_options = cookie_settings r\<rparr>"
    have name: "cookie_name r \<noteq> []"
      using persist access by (rule cookie_access_name)
    have "cookie_writes (host (advanceCurrent r v)) = cookie_writes w @ [?c]"
      if "cookie_writes v = cookie_writes w" "browser v = browser w" "now v = now w" for v
    proof -
      have same: "getSubs (cookie_name r) v = getSubs (cookie_name r) w"
        using that by (simp add: getSubs_def)
      then have "cookie_access r v = cookie_access r w"
        by (simp add: cookie_access_def)
      then have "cookie_access r v = None"
        using access by simp
      with persist show ?thesis
        using advanceCurrent_writes [of r v] that(1) by (simp add: idx same)
    qed
    then have writes: "cookie_writes (host (advance r w)) = cookie_writes w @ [?c]"
      using access by (simp add: adv animate_frame setStyle_frame)
    have "fst (getSub (cookie_name r) ''current'' (host (advance r w))) = Inr (Some idxNext)"
      if shown: "shows_last_write (host (advance r w))"
    proof -
      have "browser (host (advance r w)) (cookie_writes (host (advance r w)))
              (now (host (advance r w))) (cw_name ?c) = Inr (Some (cw_hash ?c))"
        using shown writes by (rule shows_last_write_snoc)
      then have "browser (host (advance r w)) (cookie_writes (host (advance r w)))
              (now (host (advance r w))) (cookie_name r) = Inr (Some (cw_hash ?c))"
        by simp
      with name have "fst (getSub (cookie_name r) ''current'' (host (advance r w))) =
          Inr (cw_hash ?c ''current'')"
        by (rule getSub_shown)
      then show ?thesis by simp
    qed
    with writes show ?thesis by simp
  qed
  ultimately show ?thesis
    by (simp add: anim_completes_cookies assms(3))
qed

theorem advance_index_at_initiation_witness:
  "cookie_persist (persist_rotator3 0) \<and>
   cookie_access (persist_rotator3 0) (idle_page 1) = None \<and>
   shows_last_write (host (advance (persist_rotator3 0) (idle_page 1))) \<and>
   current (widget (advance (persist_rotator3 0) (idle_page 1))) = Num 1 \<and>
   trace (host (advance (persist_rotator3 0) (idle_page 1))) =
     [SetStyle (Some 2) ''visibility'' (Str ''visible''),
      SetSub ''elementrotator'' ''current'' (Num 1) default_settings,
      Animate (Some 2) 1 1] \<and>
   cookie_writes (host (advance (persist_rotator3 0) (idle_page 1))) = [stored_index 1] \<and>
   fst (getSub ''elementrotator'' ''current''
          (host (advance (persist_rotator3 0) (idle_page 1)))) = Inr (Some (Num 1))"
proof -
  have idx: "Num 1 = js_rem (js_add (current (persist_rotator3 0)) (Num 1))
                       (Num (real (length (elements (persist_rotator3 0)))))"
    by (simp add: persist_rotator3_def js_trunc_def)
  have cur: "Some 1 = js_index (elements (persist_rotator3 0)) (current (persist_rotator3 0))"
    and nxt: "Some 2 = js_index (elements (persist_rotator3 0)) (Num 1)"
    by (simp_all add: persist_rotator3_def)
  have cfg: "cookie_persist (persist_rotator3 0)"
    "cookie_name (persist_rotator3 0) = ''elementrotator''"
    "cookie_settings (persist_rotator3 0) = default_settings"
    "fade_duration (persist_rotator3 0) = 1"
    by (simp_all add: persist_rotator3_def persist_config_def default_config_def
        ElementRotator_def default_settings_def)
  have page: "trace (idle_page v) = []" "cookie_writes (idle_page v) = []"
    "browser (idle_page v) = page_browser ''/index.html''" "now (idle_page v) = 12000"
    "getSubs ''elementrotator'' (idle_page v) = Inr None"
    "cookie_access (persist_rotator3 0) (idle_page v) = None" for v
    by (simp_all add: idle_page_def getSubs_def cookie_access_def cfg page_browser_def)
  note inst = advance_index_at_initiation [OF idx cur nxt, of "idle_page 1"]
  have writes: "cookie_writes (host (advance (persist_rotator3 0) (idle_page 1))) =
      [stored_index 1]"
    using inst unfolding cfg page by (simp add: cfg stored_index_def)
  have frame: "browser (host (advance (persist_rotator3 0) (idle_page 1))) =
      page_browser ''/index.html''"
    "now (host (advance (persist_rotator3 0) (idle_page 1))) = 12000"
    using advance_unfold [OF refl refl refl refl refl, of "persist_rotator3 0" "idle_page 1"]
    unfolding page
    by (simp_all add: page animate_frame advanceCurrent_frame setStyle_frame)
  have shown: "shows_last_write (host (advance (persist_rotator3 0) (idle_page 1)))"
    unfolding shows_last_write_def writes frame
    by (simp add: page_browser_def store_def page_shows_def stored_index_def
        default_settings_def path_covers_def)
  from inst shown writes show ?thesis
    unfolding cfg page by (simp add: cfg)
qed

section \<open>A single element\<close>

lemma cycle_parts:
  "widget (cycle r w) = widget (timer_fires r w)"
  "thrown (cycle r w) = thrown (timer_fires r w)"
  "host (cycle r w) = anim_completes (widget (timer_fires r w)) (host (timer_fires r w))"
  by (simp_all add: cycle_def Let_def)

text \<open>One cycle of a widget without persistence whose only element is \<open>e\<close>.\<close>

lemma single_cycle:
  assumes "elements r = [e]" and "current r = Num 0" and "timers w = [t]"
    and "running w = []" and "\<not> cookie_persist r"
  shows "current (widget (cycle r w)) = Num 0"
    and "elements (widget (cycle r w)) = [e]"
    and "cookie_persist (widget (cycle r w)) = cookie_persist r"
    and "timers (host (cycle r w)) = [schedule_t r (now w)]"
    and "running (host (cycle r w)) = []"
    and "styles (host (cycle r w)) e =
           (styles w e)(''visibility'' \<mapsto> Str ''hidden'', ''opacity'' \<mapsto> Number (Num 0))"
    and "trace (host (cycle r w)) =
           trace w @
           [SetStyle (Some e) ''visibility'' (Str ''visible''),
            SetStyle (Some e) ''opacity'' (Number (Num 1)),
            Animate (Some e) 0 (fade_duration r),
            SetStyle (Some e) ''visibility'' (Str ''hidden''),
            SetTimeout (schedule_t r (now w))]"
proof -
  let ?w0 = "w\<lparr>timers := []\<rparr>"
  let ?v = "setStyle (Some e) ''opacity'' (Number (Num 1))
              (setStyle (Some e) ''visibility'' (Str ''visible'') ?w0)"
  have c: "0 < length (elements r)" and cur: "current r = Num (real 0)"
    and last: "\<not> Suc 0 < length (elements r)" and ne: "elements r \<noteq> []"
    and nth: "elements r ! 0 = e"
    using assms(1,2) by simp_all
  have idx: "current (widget (advanceCurrent r v)) = Num 0" for v
    using advanceCurrent_current [OF ne cur, of v] assms(1) by simp
  have access: "cookie_access r v = None" for v
    using assms(5) by (simp add: cookie_access_def)
  have adv: "advance r ?w0 =
        (advanceCurrent r ?v)
          \<lparr>host := animate (Some e) 0 (fade_duration r) (FadeDownComplete (Some e))
                     (host (advanceCurrent r ?v))\<rparr>"
    using advance_in_range [OF c cur refl refl, of ?w0] last nth access by simp
  have fire: "timer_fires r w = advance r ?w0"
    using assms(3) by (simp add: timer_fires_def)
  have run: "running (host (advance r ?w0)) =
      [\<lparr>tw_el = Some e, tw_from = Some (Number (Num 1)), tw_to = 0,
        tw_duration = fade_duration r, tw_onComplete = FadeDownComplete (Some e)\<rparr>]"
    using assms(4)
    by (simp add: adv animate_running advanceCurrent_frame setStyle_frame setStyle_styles)
  have cfg: "schedule_t (widget (advance r ?w0)) u = schedule_t r u" for u
    by (rule schedule_t_cong) (simp_all add: advance_widget)
  have frame: "now (host (advance r ?w0)) = now w" "timers (host (advance r ?w0)) = []"
    by (simp_all add: adv animate_frame advanceCurrent_frame setStyle_frame)
  have t1: "trace (host (advance r ?w0)) =
           trace w @
           [SetStyle (Some e) ''visibility'' (Str ''visible''),
            SetStyle (Some e) ''opacity'' (Number (Num 1)),
            Animate (Some e) 0 (fade_duration r)]"
    using assms(5) by (simp add: adv animate_frame advanceCurrent_trace setStyle_trace)
  have st1: "styles (host (advance r ?w0)) e =
      (styles w e)(''visibility'' \<mapsto> Str ''visible'', ''opacity'' \<mapsto> Number (Num 1))"
    by (simp add: adv animate_frame advanceCurrent_frame setStyle_styles)
  show "current (widget (cycle r w)) = Num 0"
    using idx [of w] by (simp add: cycle_parts fire advance_widget advanceCurrent_widget)
  show "elements (widget (cycle r w)) = [e]"
    by (simp add: cycle_parts fire advance_widget assms(1))
  show "cookie_persist (widget (cycle r w)) = cookie_persist r"
    by (simp add: cycle_parts fire advance_widget)
  show "timers (host (cycle r w)) = [schedule_t r (now w)]"
    by (simp add: cycle_parts fire anim_completes_def run schedule_frame setStyle_frame cfg
        frame)
  show "running (host (cycle r w)) = []"
    by (simp add: cycle_parts fire anim_completes_def run schedule_frame setStyle_frame)
  show "styles (host (cycle r w)) e =
           (styles w e)(''visibility'' \<mapsto> Str ''hidden'', ''opacity'' \<mapsto> Number (Num 0))"
    by (simp add: cycle_parts fire anim_completes_def run schedule_frame setStyle_styles st1
        fun_upd_twist)
  show "trace (host (cycle r w)) =
           trace w @
           [SetStyle (Some e) ''visibility'' (Str ''visible''),
            SetStyle (Some e) ''opacity'' (Number (Num 1)),
            Animate (Some e) 0 (fade_duration r),
            SetStyle (Some e) ''visibility'' (Str ''hidden''),
            SetTimeout (schedule_t r (now w))]"
    by (simp add: cycle_parts fire anim_completes_def run schedule_frame setStyle_trace
        setStyle_frame cfg frame t1)
qed

text \<open>
  Claim C8 against the code. The container 0 holds exactly one element, node 1, and the
  widget has the default configuration. \<^verbatim>\<open>render\<close> shows the element and, as the check
  \<^verbatim>\<open>this !== 1\<close> is true, sets a timer. The advance that the timer starts is not a no-op:
  it takes the wrap branch with the one element as both the outgoing and the incoming
  element, animates its opacity to 0 and sets it hidden at completion. The index stays
  0 and a timer is pending again, but the only element is hidden after the first cycle
  and after the second one as well.
\<close>

theorem single_element_disappears:
  "element_children (fresh_page [(1, 1)] []) 0 = [1] \<and>
   elements (widget single_rendered) = [1] \<and>
   shown (host single_rendered) 1 \<and>
   timers (host single_rendered) = [Num 5000] \<and>
   trace (host single_cycled) =
     trace (host single_rendered) @
     [SetStyle (Some 1) ''visibility'' (Str ''visible''),
      SetStyle (Some 1) ''opacity'' (Number (Num 1)),
      Animate (Some 1) 0 1,
      SetStyle (Some 1) ''visibility'' (Str ''hidden''),
      SetTimeout (Num 5000)] \<and>
   current (widget single_cycled) = Num 0 \<and>
   timers (host single_cycled) = [Num 5000] \<and>
   hidden (host single_cycled) 1 \<and>
   filter (shown (host single_cycled)) (elements (widget single_cycled)) = [] \<and>
   current (widget single_cycled_twice) = Num 0 \<and>
   hidden (host single_cycled_twice) 1"
proof -
  let ?r0 = "ElementRotator 0 default_config"
  let ?w0 = "fresh_page [(1, 1)] []"
  have rend: "single_rendered =
      \<lparr>widget = ?r0\<lparr>elements := [1]\<rparr>,
       host = ?w0\<lparr>styles := (styles ?w0)
                    (0 := [''position'' \<mapsto> Str ''relative''],
                     1 := [''position'' \<mapsto> Str ''absolute'', ''left'' \<mapsto> Number (Num 0),
                           ''top'' \<mapsto> Number (Num 0), ''zIndex'' \<mapsto> Number (Num 0),
                           ''visibility'' \<mapsto> Str ''visible'',
                           ''opacity'' \<mapsto> Number (Num 1)]),
                  timers := [Num 5000],
                  trace := trace (host single_rendered)\<rparr>,
       thrown = None\<rparr>"
    by (simp add: single_rendered_def render_def initCurrent_def getStyle_def setStyle_def
        schedule_def schedule_t_def setTimeout_def strict_neq_def Let_def fresh_page_def
        ElementRotator_def default_config_def)
  have r1: "elements (widget single_rendered) = [1]" "current (widget single_rendered) = Num 0"
    "\<not> cookie_persist (widget single_rendered)"
    "fade_duration (widget single_rendered) = 1"
    "schedule_t (widget single_rendered) u = Num 5000" for u
    by (subst rend, simp add: ElementRotator_def default_config_def schedule_t_def)+
  have w1: "timers (host single_rendered) = [Num 5000]" "running (host single_rendered) = []"
    "shown (host single_rendered) 1"
    by (subst rend, simp add: fresh_page_def shown_def)+
  note first = single_cycle [OF r1(1,2) w1(1,2) r1(3), folded single_cycled_def]
  have r2: "elements (widget single_cycled) = [1]" "current (widget single_cycled) = Num 0"
    "\<not> cookie_persist (widget single_cycled)"
    using first(1,2,3) r1(3) by simp_all
  have w2: "timers (host single_cycled) = [Num 5000]" "running (host single_cycled) = []"
    using first(4,5) by (simp_all add: r1(5))
  note second = single_cycle [OF r2(1,2) w2(1,2) r2(3), folded single_cycled_twice_def]
  have h1: "hidden (host single_cycled) 1"
    unfolding hidden_def first(6) by simp
  then have none: "filter (shown (host single_cycled)) (elements (widget single_cycled)) = []"
    using shown_not_hidden by (simp add: r2(1))
  have h2: "hidden (host single_cycled_twice) 1"
    unfolding hidden_def second(6) by simp
  have els: "element_children ?w0 0 = [1]"
    by (simp add: element_children_def fresh_page_def)
  have t: "trace (host single_cycled) =
     trace (host single_rendered) @
     [SetStyle (Some 1) ''visibility'' (Str ''visible''),
      SetStyle (Some 1) ''opacity'' (Number (Num 1)),
      Animate (Some 1) 0 1,
      SetStyle (Some 1) ''visibility'' (Str ''hidden''),
      SetTimeout (Num 5000)]"
    using first(7) by (simp add: r1(4,5))
  show ?thesis
    using els r1(1) w1(1,3) t r2(2) w2(1) h1 none second(1) h2 by simp
qed

theorem single_element_disappears_witness:
  "childNodes (fresh_page [(1, 1)] []) (element (ElementRotator 0 default_config)) \<noteq> [] \<and>
   \<not> truthy (getStyle (fresh_page [(1, 1)] []) (element (ElementRotator 0 default_config))
               ''position'') \<and>
   shown (host single_rendered) 1 \<and> hidden (host single_cycled) 1 \<and>
   hidden (host single_cycled_twice) 1"
  using single_element_disappears
  by (simp add: fresh_page_def ElementRotator_def getStyle_def)

end
